theory Spec2Isabelle
  imports Complex_Main "HOL-Library.Option_ord"
begin

section \<open>Position and order execution engine of contra\_bot\<close>

text \<open>
  A shallow embedding of \<^verbatim>\<open>db.py\<close>, \<^verbatim>\<open>trade_executor.py\<close> and
  \<^verbatim>\<open>position_manager.py\<close>, with the admission step of \<^verbatim>\<open>main.run_pipeline\<close>.

  Conventions of the embedding:
  \<^item> Python floats (prices, quantities, P\&L) are modelled as \<open>real\<close>. The sums,
    differences and products of the P\&L are exact. Where the code truncates or rounds a
    quotient or a product (the order quantity, the strike of an option contract), the value
    is first rounded to the nearest double, as the float operation does, and a value beyond
    the largest double is infinite: the model takes the branch the code takes on
    \<^verbatim>\<open>inf\<close>. NaN does not arise.
  \<^item> A timestamp is an \<open>int\<close>: microseconds since the epoch (UTC). Every operation
    reads the clock once; the reading is the parameter \<open>now\<close>.
  \<^item> The SQLite database is the record \<open>world\<close>: one list of rows per table, in
    insertion order, and the \<^verbatim>\<open>AUTOINCREMENT\<close> counter of each table. The one
    database failure in the model is the violation of the foreign key from
    \<^verbatim>\<open>trades\<close> and \<^verbatim>\<open>pending_orders\<close> to \<^verbatim>\<open>signals\<close>; the table \<^verbatim>\<open>posts\<close> is
    not modelled (the pipeline saves the post before the parser saves the signal).
  \<^item> The brokerage is the record \<open>env\<close>: what each Alpaca call answers. A call that
    raises is the answer \<open>None\<close> (or \<open>False\<close>). The calls made are logged in
    the world (\<open>submitted\<close>, \<open>close_requests\<close>), and so is every \<^verbatim>\<open>time.sleep\<close>
    of the retry helper (\<open>sleeps\<close>).
  \<^item> An exception that leaves a function is the left summand of its result.
\<close>

subsection \<open>Strings and symbols\<close>

text \<open>\<^verbatim>\<open>str.upper()\<close>, on ASCII letters (a \<open>char\<close> is a byte).\<close>

definition upper_char :: "char \<Rightarrow> char" where
  "upper_char c =
     (case map_of (zip ''abcdefghijklmnopqrstuvwxyz'' ''ABCDEFGHIJKLMNOPQRSTUVWXYZ'') c of
        Some u \<Rightarrow> u
      | None \<Rightarrow> c)"

definition upper :: "string \<Rightarrow> string" where
  "upper s = map upper_char s"

definition CRYPTO_MAP :: "(string \<times> string) list" where
  "CRYPTO_MAP =
   [(''BTC'', ''BTC/USD''), (''BITCOIN'', ''BTC/USD''),
    (''ETH'', ''ETH/USD''), (''ETHEREUM'', ''ETH/USD''),
    (''SOL'', ''SOL/USD''), (''SOLANA'', ''SOL/USD''),
    (''DOGE'', ''DOGE/USD''), (''DOGECOIN'', ''DOGE/USD''),
    (''ADA'', ''ADA/USD''), (''CARDANO'', ''ADA/USD''),
    (''XRP'', ''XRP/USD''), (''RIPPLE'', ''XRP/USD''),
    (''AVAX'', ''AVAX/USD''), (''AVALANCHE'', ''AVAX/USD''),
    (''DOT'', ''DOT/USD''), (''POLKADOT'', ''DOT/USD''),
    (''LINK'', ''LINK/USD''), (''CHAINLINK'', ''LINK/USD''),
    (''LTC'', ''LTC/USD''), (''LITECOIN'', ''LTC/USD''),
    (''UNI'', ''UNI/USD''), (''UNISWAP'', ''UNI/USD''),
    (''MATIC'', ''MATIC/USD''), (''POLYGON'', ''MATIC/USD''),
    (''SHIB'', ''SHIB/USD''), (''SHIBA'', ''SHIB/USD''),
    (''BNB'', ''BNB/USD''),
    (''NEAR'', ''NEAR/USD''),
    (''FTM'', ''FTM/USD''), (''FANTOM'', ''FTM/USD''),
    (''INJ'', ''INJ/USD''), (''INJECTIVE'', ''INJ/USD''),
    (''ARB'', ''ARB/USD''), (''ARBITRUM'', ''ARB/USD''),
    (''OP'', ''OP/USD''), (''OPTIMISM'', ''OP/USD''),
    (''PEPE'', ''PEPE/USD'')]"

definition to_alpaca_crypto_symbol :: "string \<Rightarrow> string" where
  "to_alpaca_crypto_symbol ticker =
     (let up = upper ticker
      in case map_of CRYPTO_MAP up of Some mapped \<Rightarrow> mapped | None \<Rightarrow> up @ ''/USD'')"

definition to_alpaca_stock_symbol :: "string \<Rightarrow> string" where
  "to_alpaca_stock_symbol ticker = filter (\<lambda>c. c \<noteq> CHR ''/'') (upper ticker)"

subsection \<open>Data model\<close>

record OptionDetails =
  expiry :: string
  strike :: real
  contract_type :: string

record TradeSignal =
  sig_ticker :: string
  sig_asset_type :: string
  sig_direction :: string
  sig_raw_direction :: string
  sig_confidence :: real
  sig_reasoning :: string
  sig_option_details :: "OptionDetails option"
  sig_post_id :: string
  sig_signal_id :: "nat option"

text \<open>A row of the table \<^verbatim>\<open>signals\<close>.\<close>

record signal_row =
  sr_id :: nat
  sr_post_id :: string
  sr_ticker :: string
  sr_asset_type :: string
  sr_raw_direction :: string
  sr_final_direction :: string
  sr_confidence :: real
  sr_reasoning :: string
  sr_created_at :: int

text \<open>
  A row of the table \<^verbatim>\<open>trades\<close>. The columns that \<^verbatim>\<open>save_trade\<close> does not write
  (\<^verbatim>\<open>current_price\<close>, \<^verbatim>\<open>closed_at\<close>, \<^verbatim>\<open>pnl\<close>) are \<open>None\<close> (SQL NULL) until
  an update sets them. \<open>t_opened_at = None\<close> stands for a missing, empty or unparseable
  \<^verbatim>\<open>opened_at\<close> text.
\<close>

record trade =
  t_id :: nat
  t_signal_id :: "nat option"
  t_alpaca_order_id :: string
  t_ticker :: string
  t_direction :: string
  t_asset_type :: string
  t_qty :: real
  t_entry_price :: real
  t_current_price :: "real option"
  t_status :: string
  t_opened_at :: "int option"
  t_closed_at :: "int option"
  t_pnl :: "real option"

text \<open>A row of the table \<^verbatim>\<open>pending_orders\<close>.\<close>

record pending_order =
  p_id :: nat
  p_signal_id :: "nat option"
  p_ticker :: string
  p_direction :: string
  p_qty :: real
  p_asset_type :: string
  p_created_at :: int

datatype order_side = BUY | SELL

datatype time_in_force = DAY | GTC

text \<open>
  What is handed to \<^verbatim>\<open>TradingClient.submit_order\<close>: a market order (symbol, qty, side,
  time in force) or a one-leg option order (OCC symbol, side).
\<close>

datatype order_request =
    MarketOrderRequest string real order_side time_in_force
  | PlaceOptionOrderRequest string order_side

record world =
  signals :: "signal_row list"
  signals_seq :: nat
  trades :: "trade list"
  trades_seq :: nat
  pending_orders :: "pending_order list"
  pending_seq :: nat
  submitted :: "order_request list"
  close_requests :: "string list"
  sleeps :: "real list"

text \<open>
  The brokerage, as one operation sees it.
  \<^item> \<open>stock_quote sym\<close>, \<open>crypto_quote sym\<close>: the latest quote of a symbol as
    \<^verbatim>\<open>float(quote.ask_price or quote.bid_price)\<close>; \<open>None\<close> when there is no quote or
    the request raises.
  \<^item> \<open>clock_is_open\<close>: \<^verbatim>\<open>get_clock().is_open\<close>; \<open>None\<close> when the request raises.
  \<^item> \<open>submit_order n req\<close>: the answer to the \<open>n\<close>-th \<^verbatim>\<open>submit_order\<close> call
    (\<open>n\<close> calls came before it): the order id, or \<open>None\<close> when the call raises.
  \<^item> \<open>close_position_ok sym\<close>: whether \<^verbatim>\<open>TradingClient.close_position(sym)\<close> returns
    (rather than raises).
  \<^item> \<open>options_importable\<close>: whether \<^verbatim>\<open>OptionLegRequest\<close> and
    \<^verbatim>\<open>PlaceOptionOrderRequest\<close> can be imported.
\<close>

record env =
  stock_quote :: "string \<Rightarrow> real option"
  crypto_quote :: "string \<Rightarrow> real option"
  clock_is_open :: "bool option"
  submit_order :: "nat \<Rightarrow> order_request \<Rightarrow> string option"
  close_position_ok :: "string \<Rightarrow> bool"
  options_importable :: bool

record config =
  max_open_positions :: int
  max_position_size_usd :: real
  holding_period_days :: int

text \<open>
  The exceptions that leave a modelled function. \<open>InfiniteQuantity\<close> is no Python
  exception: it marks the one run the embedding does not follow, an order whose quantity
  is \<^verbatim>\<open>inf\<close> (quantities are reals here).
\<close>

datatype error = IndexError | IntegrityError | OverflowError | InfiniteQuantity

subsection \<open>Time\<close>

definition usec_per_hour :: int where
  "usec_per_hour = 3600000000"

definition usec_per_day :: int where
  "usec_per_day = 86400000000"

text \<open>The calendar day (days since the epoch) of a timestamp.\<close>

definition day_of :: "int \<Rightarrow> int" where
  "day_of t = t div usec_per_day"

subsection \<open>db.py\<close>

text \<open>
  \<^verbatim>\<open>INTEGER PRIMARY KEY AUTOINCREMENT\<close>: the new row id is one more than the largest
  id the table ever held.
\<close>

definition next_rowid :: "nat \<Rightarrow> nat list \<Rightarrow> nat" where
  "next_rowid seq ids = Suc (fold max ids seq)"

definition save_signal ::
  "int \<Rightarrow> string \<Rightarrow> string \<Rightarrow> string \<Rightarrow> string \<Rightarrow> string \<Rightarrow> real \<Rightarrow> string \<Rightarrow> world
     \<Rightarrow> nat \<times> world" where
  "save_signal now post_id ticker asset_type raw_direction final_direction confidence reasoning w =
     (let rid = next_rowid (signals_seq w) (map sr_id (signals w));
          row = \<lparr>sr_id = rid, sr_post_id = post_id, sr_ticker = ticker,
                 sr_asset_type = asset_type, sr_raw_direction = raw_direction,
                 sr_final_direction = final_direction, sr_confidence = confidence,
                 sr_reasoning = reasoning, sr_created_at = now\<rparr>
      in (rid, w\<lparr>signals := signals w @ [row], signals_seq := rid\<rparr>))"

text \<open>
  \<^verbatim>\<open>created_at > datetime('now', '-24 hours')\<close> compares two TEXT values bytewise.
  The column holds \<^verbatim>\<open>datetime.isoformat()\<close>, \<^verbatim>\<open>YYYY-MM-DDTHH:MM:SS[.ffffff]\<close>, and
  SQLite's \<^verbatim>\<open>datetime()\<close> yields \<^verbatim>\<open>YYYY-MM-DD HH:MM:SS\<close>. The first ten characters
  order the two by calendar day; on the same day the eleventh decides, and \<^verbatim>\<open>T\<close> is
  greater than the space. So the stored text is greater exactly when its day is not
  before the day of the cutoff.
\<close>

definition iso_text_gt_sqlite_text :: "int \<Rightarrow> int \<Rightarrow> bool" where
  "iso_text_gt_sqlite_text created cutoff =
     (day_of created > day_of cutoff \<or>
      (day_of created = day_of cutoff \<and> (of_char CHR '' '' :: nat) < of_char CHR ''T''))"

definition has_recent_signal_for_ticker :: "int \<Rightarrow> string \<Rightarrow> int \<Rightarrow> world \<Rightarrow> bool" where
  "has_recent_signal_for_ticker now ticker hours w =
     (\<exists>r \<in> set (signals w).
        sr_ticker r = ticker \<and>
        iso_text_gt_sqlite_text (sr_created_at r) (now - hours * usec_per_hour))"

text \<open>
  \<^verbatim>\<open>FOREIGN KEY (signal_id) REFERENCES signals(id)\<close> under
  \<^verbatim>\<open>PRAGMA foreign_keys=ON\<close>: an insert whose \<^verbatim>\<open>signal_id\<close> is not NULL and names no
  row of \<^verbatim>\<open>signals\<close> raises \<^verbatim>\<open>sqlite3.IntegrityError\<close>, and \<^verbatim>\<open>get_db\<close> rolls the
  insert back.
\<close>

definition signal_fk_holds :: "nat option \<Rightarrow> world \<Rightarrow> bool" where
  "signal_fk_holds signal_id w =
     (case signal_id of None \<Rightarrow> True | Some i \<Rightarrow> i \<in> set (map sr_id (signals w)))"

definition save_trade ::
  "int \<Rightarrow> nat option \<Rightarrow> string \<Rightarrow> string \<Rightarrow> string \<Rightarrow> string \<Rightarrow> real \<Rightarrow> real \<Rightarrow> string
     \<Rightarrow> world \<Rightarrow> error + nat \<times> world" where
  "save_trade now signal_id alpaca_order_id ticker direction asset_type qty entry_price status w =
     (if \<not> signal_fk_holds signal_id w then Inl IntegrityError
      else
        (let rid = next_rowid (trades_seq w) (map t_id (trades w));
             row = \<lparr>t_id = rid, t_signal_id = signal_id, t_alpaca_order_id = alpaca_order_id,
                    t_ticker = ticker, t_direction = direction, t_asset_type = asset_type,
                    t_qty = qty, t_entry_price = entry_price, t_current_price = None,
                    t_status = status, t_opened_at = Some now, t_closed_at = None,
                    t_pnl = None\<rparr>
         in Inr (rid, w\<lparr>trades := trades w @ [row], trades_seq := rid\<rparr>)))"

text \<open>
  \<^verbatim>\<open>ORDER BY opened_at DESC\<close>; NULL is the smallest value, as \<open>None\<close> is. Rows with
  equal \<^verbatim>\<open>opened_at\<close> come out in rowid order, which is insertion order: the stable
  sort runs on the reversed table and its result is reversed.
\<close>

definition get_open_trades :: "world \<Rightarrow> trade list" where
  "get_open_trades w =
     rev (sort_key t_opened_at (rev (filter (\<lambda>t. t_status t = ''open'') (trades w))))"

definition get_open_trade_for_ticker :: "string \<Rightarrow> world \<Rightarrow> trade option" where
  "get_open_trade_for_ticker ticker w =
     find (\<lambda>t. t_ticker t = ticker \<and> t_status t = ''open'') (trades w)"

definition update_trade_price :: "nat \<Rightarrow> real \<Rightarrow> real \<Rightarrow> world \<Rightarrow> world" where
  "update_trade_price trade_id current_price pnl w =
     w\<lparr>trades := map (\<lambda>t. if t_id t = trade_id
                            then t\<lparr>t_current_price := Some current_price, t_pnl := Some pnl\<rparr>
                            else t) (trades w)\<rparr>"

definition close_trade :: "int \<Rightarrow> nat \<Rightarrow> real \<Rightarrow> real \<Rightarrow> world \<Rightarrow> world" where
  "close_trade now trade_id current_price pnl w =
     w\<lparr>trades := map (\<lambda>t. if t_id t = trade_id
                            then t\<lparr>t_status := ''closed'', t_closed_at := Some now,
                                   t_current_price := Some current_price, t_pnl := Some pnl\<rparr>
                            else t) (trades w)\<rparr>"

text \<open>\<^verbatim>\<open>COALESCE(SUM(pnl), 0.0)\<close> over the closed trades: NULL adds nothing.\<close>

definition get_total_pnl :: "world \<Rightarrow> real" where
  "get_total_pnl w =
     sum_list (map (\<lambda>t. case t_pnl t of Some x \<Rightarrow> x | None \<Rightarrow> 0)
                   (filter (\<lambda>t. t_status t = ''closed'') (trades w)))"

definition count_open_positions :: "world \<Rightarrow> int" where
  "count_open_positions w = int (length (filter (\<lambda>t. t_status t = ''open'') (trades w)))"

definition save_pending_order ::
  "int \<Rightarrow> nat option \<Rightarrow> string \<Rightarrow> string \<Rightarrow> real \<Rightarrow> string \<Rightarrow> world
     \<Rightarrow> error + nat \<times> world" where
  "save_pending_order now signal_id ticker direction qty asset_type w =
     (if \<not> signal_fk_holds signal_id w then Inl IntegrityError
      else
        (let rid = next_rowid (pending_seq w) (map p_id (pending_orders w));
             row = \<lparr>p_id = rid, p_signal_id = signal_id, p_ticker = ticker,
                    p_direction = direction, p_qty = qty, p_asset_type = asset_type,
                    p_created_at = now\<rparr>
         in Inr (rid, w\<lparr>pending_orders := pending_orders w @ [row], pending_seq := rid\<rparr>)))"

text \<open>\<^verbatim>\<open>ORDER BY created_at ASC\<close>.\<close>

definition get_pending_orders :: "world \<Rightarrow> pending_order list" where
  "get_pending_orders w = sort_key p_created_at (pending_orders w)"

definition delete_pending_order :: "nat \<Rightarrow> world \<Rightarrow> world" where
  "delete_pending_order order_id w =
     w\<lparr>pending_orders := filter (\<lambda>p. p_id p \<noteq> order_id) (pending_orders w)\<rparr>"

subsection \<open>Python numerics and formatting\<close>

text \<open>\<^verbatim>\<open>int(x)\<close> on a float: truncation towards zero.\<close>

definition py_int :: "real \<Rightarrow> int" where
  "py_int x = (if 0 \<le> x then \<lfloor>x\<rfloor> else \<lceil>x\<rceil>)"

text \<open>\<^verbatim>\<open>round(x)\<close>: to the nearest integer, a tie to the even one.\<close>

definition py_round :: "real \<Rightarrow> int" where
  "py_round x =
     (let f = \<lfloor>x\<rfloor>; d = x - of_int f
      in if d < 1 / 2 then f
         else if 1 / 2 < d then f + 1
         else if even f then f else f + 1)"

text \<open>
  IEEE 754 doubles. A positive double is \<open>m * 2 ^ (e - 52)\<close> with an integer
  \<open>m < 2 ^ 53\<close> and \<open>- 1022 \<le> e \<le> 1023\<close>. \<open>bit_length\<close> counts the binary digits of
  a positive integer,
  \<open>floor_log2 x\<close> the \<open>e\<close> with \<open>2 ^ e \<le> x < 2 ^ (e + 1)\<close> for a positive \<open>x\<close>, and
  \<open>nearest_double\<close> rounds to the nearest multiple of the unit in the last place, a
  tie to the even multiple. \<open>round_to_double\<close> is the result of a float operation whose
  exact result is \<open>x\<close>: \<open>None\<close> stands for \<^verbatim>\<open>inf\<close> or \<^verbatim>\<open>-inf\<close>, reached from
  \<open>2 ^ 1024 - 2 ^ 970\<close> on, halfway between the largest double and \<open>2 ^ 1024\<close>.
\<close>

function bit_length :: "int \<Rightarrow> int" where
  "bit_length n = (if n \<le> 0 then 0 else 1 + bit_length (n div 2))"
  by pat_completeness auto
termination
  by (relation "measure nat") auto

declare bit_length.simps [simp del]

definition floor_log2 :: "real \<Rightarrow> int" where
  "floor_log2 x =
     (if 1 \<le> x then bit_length \<lfloor>x\<rfloor> - 1
      else - bit_length (\<lceil>1 / x\<rceil> - 1))"

definition pow2 :: "int \<Rightarrow> real" where
  "pow2 k = (if 0 \<le> k then 2 ^ nat k else 1 / 2 ^ nat (- k))"

definition nearest_double :: "real \<Rightarrow> real" where
  "nearest_double x =
     (if x = 0 then 0
      else (let a = \<bar>x\<bar>;
                ulp = pow2 (max (- 1022) (floor_log2 a) - 52)
            in sgn x * (of_int (py_round (a / ulp)) * ulp)))"

definition round_to_double :: "real \<Rightarrow> real option" where
  "round_to_double x =
     (if 2 ^ 1024 - 2 ^ 970 \<le> \<bar>x\<bar> then None else Some (nearest_double x))"

text \<open>
  \<^verbatim>\<open>round(x, 6)\<close> on a finite float: the decimal with six places nearest to \<open>x\<close> (a
  tie to the even last digit), as a double.
\<close>

definition py_round6 :: "real \<Rightarrow> real" where
  "py_round6 x = nearest_double (of_int (py_round (x * 1000000)) / 1000000)"

text \<open>\<^verbatim>\<open>x or 0.0\<close> on an optional float.\<close>

definition or_zero :: "real option \<Rightarrow> real" where
  "or_zero x = (case x of None \<Rightarrow> 0 | Some p \<Rightarrow> if p = 0 then 0 else p)"

definition digit_char :: "nat \<Rightarrow> char" where
  "digit_char d = ''0123456789'' ! d"

function digits :: "nat \<Rightarrow> string" where
  "digits n = (if n < 10 then [digit_char n] else digits (n div 10) @ [digit_char (n mod 10)])"
  by pat_completeness auto
termination
  by (relation "measure (\<lambda>n. n)") auto

declare digits.simps [simp del]

definition zfill :: "nat \<Rightarrow> string \<Rightarrow> string" where
  "zfill width s = replicate (width - length s) CHR ''0'' @ s"

text \<open>The format \<^verbatim>\<open>{n:08d}\<close>: the sign counts in the width.\<close>

definition format_08d :: "int \<Rightarrow> string" where
  "format_08d n =
     (if n < 0 then CHR ''-'' # zfill 7 (digits (nat (- n))) else zfill 8 (digits (nat n)))"

subsection \<open>trade\_executor.py\<close>

text \<open>
  What \<^verbatim>\<open>_retry\<close> hands back: the value of \<^verbatim>\<open>fn()\<close>, the exception of the last
  attempt, or Python's implicit \<^verbatim>\<open>None\<close> when the loop body never ran.
\<close>

datatype 'a retry_result = Returned 'a | Raised | FellThrough

text \<open>
  \<^verbatim>\<open>for attempt in range(1, max_attempts + 1)\<close>, from \<open>attempt\<close> on. \<open>fn\<close> is a call
  with effects on the world; it answers \<open>None\<close> when it raises.
\<close>

function retry_from ::
  "(world \<Rightarrow> 'a option \<times> world) \<Rightarrow> nat \<Rightarrow> real \<Rightarrow> nat \<Rightarrow> world \<Rightarrow> 'a retry_result \<times> world" where
  "retry_from fn max_attempts base_delay attempt w =
     (if max_attempts < attempt then (FellThrough, w)
      else case fn w of
             (Some r, w1) \<Rightarrow> (Returned r, w1)
           | (None, w1) \<Rightarrow>
               if attempt = max_attempts then (Raised, w1)
               else retry_from fn max_attempts base_delay (attempt + 1)
                      (w1\<lparr>sleeps := sleeps w1 @ [base_delay * 2 ^ (attempt - 1)]\<rparr>))"
  by pat_completeness auto
termination
  by (relation "measure (\<lambda>(fn, max_attempts, base_delay, attempt, w). Suc max_attempts - attempt)")
     auto

declare retry_from.simps [simp del]

definition retry ::
  "(world \<Rightarrow> 'a option \<times> world) \<Rightarrow> nat \<Rightarrow> real \<Rightarrow> world \<Rightarrow> 'a retry_result \<times> world" where
  "retry fn max_attempts base_delay w = retry_from fn max_attempts base_delay 1 w"

text \<open>\<^verbatim>\<open>self._trading.submit_order(req)\<close>: one call to the brokerage, logged.\<close>

definition trading_submit_order :: "env \<Rightarrow> order_request \<Rightarrow> world \<Rightarrow> string option \<times> world" where
  "trading_submit_order e req w =
     (submit_order e (length (submitted w)) req, w\<lparr>submitted := submitted w @ [req]\<rparr>)"

definition is_market_open :: "env \<Rightarrow> bool" where
  "is_market_open e = (case clock_is_open e of Some b \<Rightarrow> b | None \<Rightarrow> False)"

definition get_current_price :: "env \<Rightarrow> string \<Rightarrow> string \<Rightarrow> real option" where
  "get_current_price e ticker asset_type =
     (if asset_type = ''crypto'' then crypto_quote e (to_alpaca_crypto_symbol ticker)
      else stock_quote e (to_alpaca_stock_symbol ticker))"

definition close_position :: "env \<Rightarrow> string \<Rightarrow> string \<Rightarrow> world \<Rightarrow> bool \<times> world" where
  "close_position e ticker asset_type w =
     (let symbol = (if asset_type = ''crypto'' then to_alpaca_crypto_symbol ticker
                    else to_alpaca_stock_symbol ticker)
      in (close_position_ok e symbol, w\<lparr>close_requests := close_requests w @ [symbol]\<rparr>))"

text \<open>
  \<^verbatim>\<open>_submit_stock_order\<close>. Everything after \<^verbatim>\<open>side\<close> is inside
  \<^verbatim>\<open>try ... except Exception\<close>, so the function always returns a bool: false when
  the retries are exhausted, and false when \<^verbatim>\<open>db.save_trade\<close> raises after the order
  was accepted.
\<close>

definition submit_stock_order ::
  "env \<Rightarrow> int \<Rightarrow> nat option \<Rightarrow> string \<Rightarrow> string \<Rightarrow> real \<Rightarrow> string \<Rightarrow> world \<Rightarrow> bool \<times> world" where
  "submit_stock_order e now signal_id ticker direction qty asset_type w =
     (let side = (if direction = ''long'' then BUY else SELL)
      in case retry (trading_submit_order e (MarketOrderRequest ticker qty side DAY)) 3 (3 / 2) w of
           (Returned order_id, w1) \<Rightarrow>
             (let entry_price = or_zero (get_current_price e ticker asset_type)
              in case save_trade now signal_id order_id ticker direction asset_type
                        qty entry_price ''open'' w1 of
                   Inr (trade_id, w2) \<Rightarrow> (True, w2)
                 | Inl exc \<Rightarrow> (False, w1))
         | (Raised, w1) \<Rightarrow> (False, w1)
         | (FellThrough, w1) \<Rightarrow> (False, w1))"

text \<open>
  \<^verbatim>\<open>_execute_stock\<close>. \<^verbatim>\<open>int(self._max_usd / price)\<close> raises OverflowError on an
  infinite quotient, and \<^verbatim>\<open>db.save_pending_order\<close> is called outside any \<^verbatim>\<open>try\<close>:
  both exceptions leave the function.
\<close>

definition execute_stock ::
  "env \<Rightarrow> int \<Rightarrow> config \<Rightarrow> TradeSignal \<Rightarrow> world \<Rightarrow> (error + bool) \<times> world" where
  "execute_stock e now cfg sig w =
     (let ticker = to_alpaca_stock_symbol (sig_ticker sig);
          direction = sig_direction sig
      in case get_current_price e (sig_ticker sig) ''stock'' of
           None \<Rightarrow> (Inr False, w)
         | Some price \<Rightarrow>
             if price \<le> 0 then (Inr False, w)
             else
               (case round_to_double (max_position_size_usd cfg / price) of
                  None \<Rightarrow> (Inl OverflowError, w)
                | Some ratio \<Rightarrow>
                    (let qty = max 1 (py_int ratio)
                     in if \<not> is_market_open e
                        then (case save_pending_order now (sig_signal_id sig) ticker direction
                                     (of_int qty) ''stock'' w of
                                Inr (order_id, w1) \<Rightarrow> (Inr True, w1)
                              | Inl exc \<Rightarrow> (Inl exc, w))
                        else (let (ok, w1) = submit_stock_order e now (sig_signal_id sig) ticker
                                               direction (of_int qty) ''stock'' w
                              in (Inr ok, w1)))))"

text \<open>
  \<^verbatim>\<open>_execute_crypto\<close>. An infinite quotient stays infinite through \<^verbatim>\<open>round\<close> and
  \<^verbatim>\<open>max\<close> and would be the quantity of the order; there the embedding stops
  (\<open>InfiniteQuantity\<close>). \<^verbatim>\<open>1e-6\<close> is the double nearest to that decimal.
\<close>

definition execute_crypto ::
  "env \<Rightarrow> int \<Rightarrow> config \<Rightarrow> TradeSignal \<Rightarrow> world \<Rightarrow> (error + bool) \<times> world" where
  "execute_crypto e now cfg sig w =
     (let symbol = to_alpaca_crypto_symbol (sig_ticker sig);
          direction = sig_direction sig
      in if direction = ''short'' then (Inr False, w)
         else case get_current_price e (sig_ticker sig) ''crypto'' of
                None \<Rightarrow> (Inr False, w)
              | Some price \<Rightarrow>
                  if price \<le> 0 then (Inr False, w)
                  else
                    (case round_to_double (max_position_size_usd cfg / price) of
                       None \<Rightarrow> (Inl InfiniteQuantity, w)
                     | Some ratio \<Rightarrow>
                         (let qty = max (py_round6 ratio) (nearest_double (1 / 1000000))
                          in case retry (trading_submit_order e
                                           (MarketOrderRequest symbol qty BUY GTC))
                                    3 (3 / 2) w of
                               (Returned order_id, w1) \<Rightarrow>
                                 (case save_trade now (sig_signal_id sig) order_id symbol
                                         direction ''crypto'' qty price ''open'' w1 of
                                    Inr (trade_id, w2) \<Rightarrow> (Inr True, w2)
                                  | Inl exc \<Rightarrow> (Inr False, w1))
                             | (Raised, w1) \<Rightarrow> (Inr False, w1)
                             | (FellThrough, w1) \<Rightarrow> (Inr False, w1))))"

text \<open>
  \<^verbatim>\<open>_execute_option\<close>. \<^verbatim>\<open>od.contract_type.upper()[0]\<close> stands outside every
  \<^verbatim>\<open>try\<close>: on an empty contract type the IndexError leaves the function. Building the
  OCC symbol fails when \<^verbatim>\<open>od.strike * 1000\<close> is infinite (\<^verbatim>\<open>round\<close> raises
  OverflowError); that is caught and the function returns false.
\<close>

definition execute_option ::
  "env \<Rightarrow> int \<Rightarrow> TradeSignal \<Rightarrow> world \<Rightarrow> (error + bool) \<times> world" where
  "execute_option e now sig w =
     (case sig_option_details sig of
        None \<Rightarrow> (Inr False, w)
      | Some od \<Rightarrow>
          (let ticker = to_alpaca_stock_symbol (sig_ticker sig)
           in case upper (contract_type od) of
                [] \<Rightarrow> (Inl IndexError, w)
              | ct # _ \<Rightarrow>
                  (case round_to_double (strike od * 1000) of
                     None \<Rightarrow> (Inr False, w)
                   | Some scaled \<Rightarrow>
                       (let expiry_compact = drop 2 (filter (\<lambda>c. c \<noteq> CHR ''-'') (expiry od));
                            strike_int = py_round scaled;
                            occ_symbol = ticker @ expiry_compact @ [ct] @ format_08d strike_int;
                            side = (if sig_direction sig = ''long'' then BUY else SELL)
                        in if \<not> options_importable e then (Inr False, w)
                           else case retry (trading_submit_order e
                                              (PlaceOptionOrderRequest occ_symbol side))
                                       3 (3 / 2) w of
                                  (Returned order_id, w1) \<Rightarrow>
                                    (case save_trade now (sig_signal_id sig) order_id
                                            occ_symbol (sig_direction sig) ''option''
                                            1 0 ''open'' w1 of
                                       Inr (trade_id, w2) \<Rightarrow> (Inr True, w2)
                                     | Inl exc \<Rightarrow> (Inr False, w1))
                                | (Raised, w1) \<Rightarrow> (Inr False, w1)
                                | (FellThrough, w1) \<Rightarrow> (Inr False, w1)))))"

definition execute ::
  "env \<Rightarrow> int \<Rightarrow> config \<Rightarrow> TradeSignal \<Rightarrow> world \<Rightarrow> (error + bool) \<times> world" where
  "execute e now cfg sig w =
     (if sig_asset_type sig = ''option'' then execute_option e now sig w
      else if sig_asset_type sig = ''crypto'' then execute_crypto e now cfg sig w
      else execute_stock e now cfg sig w)"

text \<open>
  The loop of \<^verbatim>\<open>submit_pending_orders\<close>. \<^verbatim>\<open>_submit_stock_order\<close> does not raise,
  so the \<^verbatim>\<open>except\<close> branch of the loop body is never taken; its boolean result is
  not looked at before \<^verbatim>\<open>db.delete_pending_order\<close>.
\<close>

fun submit_pending_loop :: "env \<Rightarrow> int \<Rightarrow> pending_order list \<Rightarrow> world \<Rightarrow> world" where
  "submit_pending_loop e now [] w = w"
| "submit_pending_loop e now (row # rows) w =
     (let (ok, w1) = submit_stock_order e now (p_signal_id row) (p_ticker row) (p_direction row)
                       (p_qty row) (p_asset_type row) w
      in submit_pending_loop e now rows (delete_pending_order (p_id row) w1))"

definition submit_pending_orders :: "env \<Rightarrow> int \<Rightarrow> world \<Rightarrow> world" where
  "submit_pending_orders e now w =
     (if \<not> is_market_open e then w
      else (let pending = get_pending_orders w
            in if pending = [] then w else submit_pending_loop e now pending w))"

subsection \<open>position\_manager.py\<close>

text \<open>
  \<^verbatim>\<open>maybe_open_position\<close>, the body under the admission lock. The dedup window is the
  literal 24 of the source.
\<close>

definition maybe_open_position ::
  "env \<Rightarrow> int \<Rightarrow> config \<Rightarrow> TradeSignal \<Rightarrow> world \<Rightarrow> (error + bool) \<times> world" where
  "maybe_open_position e now cfg sig w =
     (case get_open_trade_for_ticker (sig_ticker sig) w of
        Some existing \<Rightarrow> (Inr False, w)
      | None \<Rightarrow>
          if has_recent_signal_for_ticker now (sig_ticker sig) 24 w then (Inr False, w)
          else if max_open_positions cfg \<le> count_open_positions w then (Inr False, w)
          else execute e now cfg sig w)"

text \<open>\<^verbatim>\<open>trade["asset_type"] or "stock"\<close>.\<close>

definition asset_type_or_stock :: "trade \<Rightarrow> string" where
  "asset_type_or_stock t = (if t_asset_type t = [] then ''stock'' else t_asset_type t)"

text \<open>The P\&L of a position at a price: the sign convention of both loops.\<close>

definition pnl_at :: "trade \<Rightarrow> real \<Rightarrow> real" where
  "pnl_at t current =
     (if t_direction t = ''long'' then (current - t_entry_price t) * t_qty t
      else (t_entry_price t - current) * t_qty t)"

text \<open>The loop of \<^verbatim>\<open>_refresh_pnl\<close> over the rows read at its start.\<close>

fun refresh_loop :: "env \<Rightarrow> trade list \<Rightarrow> world \<Rightarrow> world" where
  "refresh_loop e [] w = w"
| "refresh_loop e (t # ts) w =
     (case get_current_price e (t_ticker t) (asset_type_or_stock t) of
        None \<Rightarrow> refresh_loop e ts w
      | Some current \<Rightarrow>
          if current \<le> 0 then refresh_loop e ts w
          else refresh_loop e ts (update_trade_price (t_id t) current (pnl_at t current) w))"

definition refresh_pnl :: "env \<Rightarrow> world \<Rightarrow> world" where
  "refresh_pnl e w =
     (let ts = get_open_trades w in if ts = [] then w else refresh_loop e ts w)"

text \<open>The loop of \<^verbatim>\<open>_auto_close_stale\<close> over the rows read at its start.\<close>

fun auto_close_loop :: "env \<Rightarrow> int \<Rightarrow> int \<Rightarrow> trade list \<Rightarrow> world \<Rightarrow> world" where
  "auto_close_loop e now cutoff [] w = w"
| "auto_close_loop e now cutoff (t # ts) w =
     (case t_opened_at t of
        None \<Rightarrow> auto_close_loop e now cutoff ts w
      | Some opened_at \<Rightarrow>
          if opened_at < cutoff
          then (let (closed, w1) = close_position e (t_ticker t) (asset_type_or_stock t) w
                in if closed
                   then (let current = or_zero (get_current_price e (t_ticker t)
                                                  (asset_type_or_stock t))
                         in auto_close_loop e now cutoff ts
                              (close_trade now (t_id t) current (pnl_at t current) w1))
                   else auto_close_loop e now cutoff ts w1)
          else auto_close_loop e now cutoff ts w)"

definition auto_close_stale :: "env \<Rightarrow> int \<Rightarrow> config \<Rightarrow> world \<Rightarrow> world" where
  "auto_close_stale e now cfg w =
     (let cutoff = now - holding_period_days cfg * usec_per_day
      in auto_close_loop e now cutoff (get_open_trades w) w)"

subsection \<open>The admission step of the pipeline\<close>

text \<open>
  The end of \<^verbatim>\<open>SignalParser.parse\<close>: the gated signal is saved and carries its row id.
\<close>

definition parse_persist :: "int \<Rightarrow> TradeSignal \<Rightarrow> world \<Rightarrow> TradeSignal \<times> world" where
  "parse_persist now sig w =
     (let (signal_id, w1) = save_signal now (sig_post_id sig) (sig_ticker sig)
                              (sig_asset_type sig) (sig_raw_direction sig) (sig_direction sig)
                              (sig_confidence sig) (sig_reasoning sig) w
      in (sig\<lparr>sig_signal_id := Some signal_id\<rparr>, w1))"

text \<open>
  \<^verbatim>\<open>run_pipeline\<close> from the point where the parser has a signal: the parser saves it
  at \<open>t_parse\<close>, then the position manager is asked at \<open>t_admit\<close>.
\<close>

definition run_pipeline ::
  "env \<Rightarrow> int \<Rightarrow> int \<Rightarrow> config \<Rightarrow> TradeSignal \<Rightarrow> world \<Rightarrow> (error + bool) \<times> world" where
  "run_pipeline e t_parse t_admit cfg sig w =
     (let (signal, w1) = parse_persist t_parse sig w
      in maybe_open_position e t_admit cfg signal w1)"

subsection \<open>What one pass does to one row\<close>

text \<open>
  The row that one trip through the body of the \<^verbatim>\<open>_refresh_pnl\<close> loop leaves for an
  open trade \<open>t\<close>, the symbol that \<^verbatim>\<open>close_position\<close> sends to the brokerage for
  \<open>t\<close>, and the row that one trip through the body of the \<^verbatim>\<open>_auto_close_stale\<close>
  loop leaves. They are used to state what a whole pass does to the table.
\<close>

definition refreshed_row :: "env \<Rightarrow> trade \<Rightarrow> trade" where
  "refreshed_row e t =
     (case get_current_price e (t_ticker t) (asset_type_or_stock t) of
        None \<Rightarrow> t
      | Some current \<Rightarrow>
          if current \<le> 0 then t
          else t\<lparr>t_current_price := Some current, t_pnl := Some (pnl_at t current)\<rparr>)"

definition close_symbol :: "trade \<Rightarrow> string" where
  "close_symbol t =
     (if asset_type_or_stock t = ''crypto'' then to_alpaca_crypto_symbol (t_ticker t)
      else to_alpaca_stock_symbol (t_ticker t))"

definition stale_closed_row :: "env \<Rightarrow> int \<Rightarrow> int \<Rightarrow> trade \<Rightarrow> trade" where
  "stale_closed_row e now cutoff t =
     (case t_opened_at t of
        None \<Rightarrow> t
      | Some opened_at \<Rightarrow>
          if opened_at < cutoff \<and> close_position_ok e (close_symbol t)
          then t\<lparr>t_status := ''closed'', t_closed_at := Some now,
                 t_current_price :=
                   Some (or_zero (get_current_price e (t_ticker t) (asset_type_or_stock t))),
                 t_pnl := Some (pnl_at t
                   (or_zero (get_current_price e (t_ticker t) (asset_type_or_stock t))))\<rparr>
          else t)"

subsection \<open>Example inputs\<close>

text \<open>Concrete rows, worlds and brokerage answers on which the theorems are run.\<close>

definition ex_trade :: "nat \<Rightarrow> string \<Rightarrow> string \<Rightarrow> int \<Rightarrow> trade" where
  "ex_trade i ticker direction opened_at =
     \<lparr>t_id = i, t_signal_id = Some i, t_alpaca_order_id = ''order'', t_ticker = ticker,
      t_direction = direction, t_asset_type = ''stock'', t_qty = 10, t_entry_price = 90,
      t_current_price = None, t_status = ''open'', t_opened_at = Some opened_at,
      t_closed_at = None, t_pnl = None\<rparr>"

definition ex_world :: "trade list \<Rightarrow> world" where
  "ex_world ts =
     \<lparr>signals = [], signals_seq = 0, trades = ts, trades_seq = length ts,
      pending_orders = [], pending_seq = 0, submitted = [], close_requests = [], sleeps = []\<rparr>"

definition ex_env :: env where
  "ex_env =
     \<lparr>stock_quote = (\<lambda>s. if s = ''AAPL'' then Some 100 else None),
      crypto_quote = (\<lambda>s. if s = ''BTC/USD'' then Some 50000 else None),
      clock_is_open = Some True,
      submit_order = (\<lambda>n req. Some ''order''),
      close_position_ok = (\<lambda>s. True),
      options_importable = True\<rparr>"

definition ex_env_closed :: env where
  "ex_env_closed = ex_env\<lparr>clock_is_open := Some False\<rparr>"

definition ex_env_closed_150 :: env where
  "ex_env_closed_150 =
     ex_env\<lparr>stock_quote := \<lambda>s. if s = ''AAPL'' then Some 150 else None,
            clock_is_open := Some False\<rparr>"

text \<open>A quote at the smallest positive double.\<close>

definition ex_env_closed_tiny :: env where
  "ex_env_closed_tiny =
     ex_env\<lparr>stock_quote := \<lambda>s. if s = ''AAPL'' then Some (1 / 2 ^ 1074) else None,
            clock_is_open := Some False\<rparr>"

definition ex_config :: config where
  "ex_config = \<lparr>max_open_positions = 10, max_position_size_usd = 500, holding_period_days = 7\<rparr>"

definition ex_signal :: "string \<Rightarrow> string \<Rightarrow> string \<Rightarrow> TradeSignal" where
  "ex_signal ticker asset_type direction =
     \<lparr>sig_ticker = ticker, sig_asset_type = asset_type, sig_direction = direction,
      sig_raw_direction = (if direction = ''long'' then ''short'' else ''long''),
      sig_confidence = 9 / 10, sig_reasoning = ''author holds the opposite position'',
      sig_option_details = None, sig_post_id = ''t3_abc'', sig_signal_id = None\<rparr>"

text \<open>A signal whose \<^verbatim>\<open>signal_id\<close> names no saved row.\<close>

definition ex_signal_dangling :: TradeSignal where
  "ex_signal_dangling = (ex_signal ''AAPL'' ''stock'' ''long'')\<lparr>sig_signal_id := Some 999\<rparr>"

definition ex_signal_row :: signal_row where
  "ex_signal_row =
     \<lparr>sr_id = 1, sr_post_id = ''t3_abc'', sr_ticker = ''AAPL'', sr_asset_type = ''stock'',
      sr_raw_direction = ''short'', sr_final_direction = ''long'', sr_confidence = 9 / 10,
      sr_reasoning = ''author holds the opposite position'', sr_created_at = 0\<rparr>"

definition ex_world_saved :: world where
  "ex_world_saved = (ex_world [])\<lparr>signals := [ex_signal_row], signals_seq := 1\<rparr>"

definition ex_pending :: pending_order where
  "ex_pending =
     \<lparr>p_id = 1, p_signal_id = Some 1, p_ticker = ''AAPL'', p_direction = ''long'',
      p_qty = 5, p_asset_type = ''stock'', p_created_at = 0\<rparr>"

subsection \<open>Sequences of engine operations\<close>

text \<open>
  The operations that touch the table of trades, and a run of any number of them in any
  order. \<open>row_step\<close> and \<open>table_step\<close> say how one row and the whole table may
  change over such a run.
\<close>

datatype engine_op =
    RefreshPnl env
  | AutoCloseStale env int config
  | MaybeOpenPosition env int config TradeSignal
  | SubmitPendingOrders env int

fun engine_step :: "engine_op \<Rightarrow> world \<Rightarrow> world" where
  "engine_step (RefreshPnl e) w = refresh_pnl e w"
| "engine_step (AutoCloseStale e now cfg) w = auto_close_stale e now cfg w"
| "engine_step (MaybeOpenPosition e now cfg sig) w = snd (maybe_open_position e now cfg sig w)"
| "engine_step (SubmitPendingOrders e now) w = submit_pending_orders e now w"

definition engine_run :: "engine_op list \<Rightarrow> world \<Rightarrow> world" where
  "engine_run ops w = fold engine_step ops w"

definition row_step :: "trade \<Rightarrow> trade \<Rightarrow> bool" where
  "row_step a b \<longleftrightarrow>
     t_id b = t_id a \<and> (b = a \<or> t_status a = ''open'') \<and>
     (t_status b = t_status a \<or> t_status b = ''closed'')"

definition table_step :: "trade list \<Rightarrow> trade list \<Rightarrow> bool" where
  "table_step xs ys \<longleftrightarrow>
     distinct (map t_id ys) \<and> length xs \<le> length ys \<and>
     (\<forall>i < length xs. row_step (xs ! i) (ys ! i))"

section \<open>Properties\<close>

subsection \<open>The retry helper\<close>

text \<open>
  C8. The retry wrapper, with its default of three attempts, around a brokerage call:
  the call is made once, twice or three times, and no more. After the first failed attempt
  the wrapper sleeps \<open>base_delay * 2 ^ (1 - 1)\<close>, after the second
  \<open>base_delay * 2 ^ (2 - 1)\<close>; when the third attempt fails too, its exception is
  raised with exactly three calls made and these two sleeps. The equation gives the
  result, the calls logged and the sleeps for each of the four ways the answers can fall.
\<close>

theorem retry_attempts_and_backoff:
  "retry (trading_submit_order e req) 3 base_delay w =
     (let n = length (submitted w)
      in case submit_order e n req of
           Some r \<Rightarrow> (Returned r, w\<lparr>submitted := submitted w @ [req]\<rparr>)
         | None \<Rightarrow>
             (case submit_order e (n + 1) req of
                Some r \<Rightarrow> (Returned r, w\<lparr>submitted := submitted w @ [req, req],
                                          sleeps := sleeps w @ [base_delay * 2 ^ (1 - 1)]\<rparr>)
              | None \<Rightarrow>
                  (case submit_order e (n + 2) req of
                     Some r \<Rightarrow> (Returned r,
                                 w\<lparr>submitted := submitted w @ [req, req, req],
                                   sleeps := sleeps w @ [base_delay * 2 ^ (1 - 1),
                                                         base_delay * 2 ^ (2 - 1)]\<rparr>)
                   | None \<Rightarrow> (Raised,
                              w\<lparr>submitted := submitted w @ [req, req, req],
                                sleeps := sleeps w @ [base_delay * 2 ^ (1 - 1),
                                                      base_delay * 2 ^ (2 - 1)]\<rparr>))))"
  unfolding retry_def
  apply (subst retry_from.simps)
  apply (subst retry_from.simps)
  apply (subst retry_from.simps)
  apply (simp add: trading_submit_order_def Let_def split: option.splits)
  done

subsection \<open>The reconciliation loops, row by row\<close>

lemma refreshed_row_id [simp]: "t_id (refreshed_row e t) = t_id t"
  by (simp add: refreshed_row_def split: option.splits)

lemma update_trade_price_row:
  assumes "distinct (map t_id xs)" "t \<in> set xs"
  shows "map (\<lambda>r. if t_id r = t_id t then r\<lparr>t_current_price := Some c, t_pnl := Some p\<rparr> else r) xs
       = map (\<lambda>r. if t_id r = t_id t then t\<lparr>t_current_price := Some c, t_pnl := Some p\<rparr> else r) xs"
proof (rule map_cong[OF refl])
  fix r assume "r \<in> set xs"
  with assms have "t_id r = t_id t \<Longrightarrow> r = t"
    by (meson distinct_map inj_onD)
  then show "(if t_id r = t_id t then r\<lparr>t_current_price := Some c, t_pnl := Some p\<rparr> else r)
           = (if t_id r = t_id t then t\<lparr>t_current_price := Some c, t_pnl := Some p\<rparr> else r)"
    by auto
qed

lemma refresh_loop_trades:
  "distinct (map t_id (trades w)) \<Longrightarrow> set ts \<subseteq> set (trades w) \<Longrightarrow> distinct (map t_id ts) \<Longrightarrow>
   trades (refresh_loop e ts w) =
     map (\<lambda>r. if t_id r \<in> t_id ` set ts then refreshed_row e r else r) (trades w)"
proof (induction ts arbitrary: w)
  case Nil
  then show ?case by simp
next
  case (Cons t ts)
  let ?g = "\<lambda>r. if t_id r = t_id t then refreshed_row e t else r"
  have tin: "t \<in> set (trades w)" using Cons.prems by simp
  have uniq: "\<And>r. r \<in> set (trades w) \<Longrightarrow> t_id r = t_id t \<Longrightarrow> r = t"
    using Cons.prems(1) tin by (meson distinct_map inj_onD)
  define w1 where "w1 = w\<lparr>trades := map ?g (trades w)\<rparr>"
  have step: "refresh_loop e (t # ts) w = refresh_loop e ts w1"
  proof (cases "get_current_price e (t_ticker t) (asset_type_or_stock t)")
    case None
    then have "map ?g (trades w) = trades w"
      using uniq by (intro map_idI) (auto simp: refreshed_row_def)
    then show ?thesis using None by (simp add: w1_def)
  next
    case (Some c)
    show ?thesis
    proof (cases "c \<le> 0")
      case True
      then have "map ?g (trades w) = trades w"
        using uniq Some by (intro map_idI) (auto simp: refreshed_row_def)
      then show ?thesis using Some True by (simp add: w1_def)
    next
      case False
      have eq: "map (\<lambda>r. if t_id r = t_id t
                      then r\<lparr>t_current_price := Some c, t_pnl := Some (pnl_at t c)\<rparr> else r) (trades w)
          = map ?g (trades w)"
        using uniq Some False by (intro map_cong) (auto simp: refreshed_row_def)
      show ?thesis using Some False by (simp add: w1_def update_trade_price_def eq)
    qed
  qed
  have ids1: "map t_id (trades w1) = map t_id (trades w)"
    by (simp add: w1_def comp_def cong: if_cong)
  have d1: "distinct (map t_id (trades w1))" using Cons.prems(1) ids1 by simp
  have notin: "t_id t \<notin> t_id ` set ts" using Cons.prems(3) by auto
  have sub1: "set ts \<subseteq> set (trades w1)"
  proof
    fix u assume u: "u \<in> set ts"
    then have "u \<in> set (trades w)" using Cons.prems(2) by auto
    moreover have "t_id u \<noteq> t_id t" using u notin by (metis imageI)
    ultimately show "u \<in> set (trades w1)" by (force simp: w1_def)
  qed
  have "trades (refresh_loop e ts w1) =
        map (\<lambda>r. if t_id r \<in> t_id ` set ts then refreshed_row e r else r) (trades w1)"
    using Cons.IH[OF d1 sub1] Cons.prems(3) by simp
  also have "\<dots> = map (\<lambda>r. if t_id r \<in> t_id ` set (t # ts) then refreshed_row e r else r) (trades w)"
    unfolding w1_def using uniq notin by (auto simp: image_iff)
  finally show ?case using step by simp
qed

lemma refresh_loop_frame:
  "signals (refresh_loop e ts w) = signals w \<and>
   signals_seq (refresh_loop e ts w) = signals_seq w \<and>
   trades_seq (refresh_loop e ts w) = trades_seq w \<and>
   pending_orders (refresh_loop e ts w) = pending_orders w \<and>
   pending_seq (refresh_loop e ts w) = pending_seq w \<and>
   submitted (refresh_loop e ts w) = submitted w \<and>
   close_requests (refresh_loop e ts w) = close_requests w \<and>
   sleeps (refresh_loop e ts w) = sleeps w"
  by (induction ts arbitrary: w) (auto simp: update_trade_price_def split: option.splits)

lemma get_open_trades_set:
  "set (get_open_trades w) = {t \<in> set (trades w). t_status t = ''open''}"
  by (auto simp: get_open_trades_def)

lemma get_open_trades_distinct:
  assumes "distinct (map t_id (trades w))"
  shows "distinct (map t_id (get_open_trades w))"
proof -
  have d: "distinct (trades w)" and inj: "inj_on t_id (set (trades w))"
    using assms by (simp_all add: distinct_map)
  have "distinct (get_open_trades w)"
    using d by (simp add: get_open_trades_def)
  moreover have "inj_on t_id (set (get_open_trades w))"
    using inj by (rule inj_on_subset) (auto simp: get_open_trades_set)
  ultimately show ?thesis by (simp add: distinct_map)
qed

lemma open_id_iff:
  assumes "distinct (map t_id (trades w))" "r \<in> set (trades w)"
  shows "t_id r \<in> t_id ` set (get_open_trades w) \<longleftrightarrow> t_status r = ''open''"
proof
  assume "t_id r \<in> t_id ` set (get_open_trades w)"
  then obtain u where u: "u \<in> set (trades w)" "t_status u = ''open''" "t_id r = t_id u"
    by (auto simp: get_open_trades_set)
  with assms have "r = u" by (meson distinct_map inj_onD)
  with u show "t_status r = ''open''" by simp
next
  assume "t_status r = ''open''"
  with assms(2) have "r \<in> set (get_open_trades w)" by (simp add: get_open_trades_set)
  then show "t_id r \<in> t_id ` set (get_open_trades w)" by (rule imageI)
qed

lemma refresh_pnl_trades:
  assumes "distinct (map t_id (trades w))"
  shows "trades (refresh_pnl e w) =
           map (\<lambda>r. if t_status r = ''open'' then refreshed_row e r else r) (trades w)"
proof -
  have sub: "set (get_open_trades w) \<subseteq> set (trades w)"
    by (auto simp: get_open_trades_set)
  have "trades (refresh_loop e (get_open_trades w) w) =
          map (\<lambda>r. if t_id r \<in> t_id ` set (get_open_trades w) then refreshed_row e r else r)
              (trades w)"
    by (rule refresh_loop_trades[OF assms sub get_open_trades_distinct[OF assms]])
  also have "\<dots> = map (\<lambda>r. if t_status r = ''open'' then refreshed_row e r else r) (trades w)"
    by (rule map_cong[OF refl]) (simp add: open_id_iff[OF assms])
  finally have loop: "trades (refresh_loop e (get_open_trades w) w) =
          map (\<lambda>r. if t_status r = ''open'' then refreshed_row e r else r) (trades w)" .
  show ?thesis
  proof (cases "get_open_trades w = []")
    case True
    then have "refresh_loop e (get_open_trades w) w = w" by simp
    with loop True show ?thesis by (simp add: refresh_pnl_def)
  next
    case False
    with loop show ?thesis by (simp add: refresh_pnl_def Let_def)
  qed
qed

lemma refresh_pnl_ids:
  assumes "distinct (map t_id (trades w))"
  shows "map t_id (trades (refresh_pnl e w)) = map t_id (trades w)"
  by (simp add: refresh_pnl_trades[OF assms] comp_def cong: if_cong)

lemma stale_closed_row_id [simp]: "t_id (stale_closed_row e now cutoff t) = t_id t"
  by (simp add: stale_closed_row_def split: option.splits)

lemma auto_close_loop_trades:
  "distinct (map t_id (trades w)) \<Longrightarrow> set ts \<subseteq> set (trades w) \<Longrightarrow> distinct (map t_id ts) \<Longrightarrow>
   trades (auto_close_loop e now cutoff ts w) =
     map (\<lambda>r. if t_id r \<in> t_id ` set ts then stale_closed_row e now cutoff r else r) (trades w)"
proof (induction ts arbitrary: w)
  case Nil
  then show ?case by simp
next
  case (Cons t ts)
  let ?g = "\<lambda>r. if t_id r = t_id t then stale_closed_row e now cutoff t else r"
  have tin: "t \<in> set (trades w)" using Cons.prems by simp
  have uniq: "\<And>r. r \<in> set (trades w) \<Longrightarrow> t_id r = t_id t \<Longrightarrow> r = t"
    using Cons.prems(1) tin by (meson distinct_map inj_onD)
  have idle: "stale_closed_row e now cutoff t = t \<Longrightarrow> map ?g (trades w) = trades w"
    using uniq by (intro map_idI) auto
  obtain w1 where
    step: "auto_close_loop e now cutoff (t # ts) w = auto_close_loop e now cutoff ts w1"
    and tr1: "trades w1 = map ?g (trades w)"
  proof (cases "t_opened_at t")
    case None
    then have "stale_closed_row e now cutoff t = t" by (simp add: stale_closed_row_def)
    with None idle that[of w] show ?thesis by simp
  next
    case (Some opened_at)
    show ?thesis
    proof (cases "opened_at < cutoff")
      case False
      then have "stale_closed_row e now cutoff t = t" using Some by (simp add: stale_closed_row_def)
      with Some False idle that[of w] show ?thesis by simp
    next
      case stale: True
      let ?w' = "w\<lparr>close_requests := close_requests w @ [close_symbol t]\<rparr>"
      have cp: "close_position e (t_ticker t) (asset_type_or_stock t) w
                 = (close_position_ok e (close_symbol t), ?w')"
        by (simp add: close_position_def close_symbol_def Let_def)
      show ?thesis
      proof (cases "close_position_ok e (close_symbol t)")
        case False
        then have "stale_closed_row e now cutoff t = t" using Some by (simp add: stale_closed_row_def)
        with idle have "trades ?w' = map ?g (trades ?w')" by simp
        moreover have "auto_close_loop e now cutoff (t # ts) w = auto_close_loop e now cutoff ts ?w'"
          using Some stale False cp by simp
        ultimately show ?thesis using that[of ?w'] by simp
      next
        case True
        let ?cur = "or_zero (get_current_price e (t_ticker t) (asset_type_or_stock t))"
        let ?w2 = "close_trade now (t_id t) ?cur (pnl_at t ?cur) ?w'"
        have "trades ?w2 = map ?g (trades w)"
          unfolding close_trade_def using uniq Some stale True
          by (auto simp: stale_closed_row_def intro!: map_cong)
        moreover have "auto_close_loop e now cutoff (t # ts) w = auto_close_loop e now cutoff ts ?w2"
          using Some stale True cp by (simp add: Let_def)
        ultimately show ?thesis using that[of ?w2] by simp
      qed
    qed
  qed
  have ids1: "map t_id (trades w1) = map t_id (trades w)"
    by (simp add: tr1 comp_def cong: if_cong)
  have d1: "distinct (map t_id (trades w1))" using Cons.prems(1) ids1 by simp
  have notin: "t_id t \<notin> t_id ` set ts" using Cons.prems(3) by auto
  have sub1: "set ts \<subseteq> set (trades w1)"
  proof
    fix u assume u: "u \<in> set ts"
    then have "u \<in> set (trades w)" using Cons.prems(2) by auto
    moreover have "t_id u \<noteq> t_id t" using u notin by (metis imageI)
    ultimately show "u \<in> set (trades w1)" by (force simp: tr1)
  qed
  have "trades (auto_close_loop e now cutoff ts w1) =
        map (\<lambda>r. if t_id r \<in> t_id ` set ts then stale_closed_row e now cutoff r else r) (trades w1)"
    using Cons.IH[OF d1 sub1] Cons.prems(3) by simp
  also have "\<dots> = map (\<lambda>r. if t_id r \<in> t_id ` set (t # ts)
                              then stale_closed_row e now cutoff r else r) (trades w)"
    unfolding tr1 using uniq notin by (auto simp: image_iff)
  finally show ?case using step by simp
qed

subsection \<open>Reconciliation: P\&L refresh and stale close\<close>

lemma auto_close_loop_frame:
  "signals (auto_close_loop e now cutoff ts w) = signals w \<and>
   signals_seq (auto_close_loop e now cutoff ts w) = signals_seq w \<and>
   trades_seq (auto_close_loop e now cutoff ts w) = trades_seq w \<and>
   pending_orders (auto_close_loop e now cutoff ts w) = pending_orders w \<and>
   pending_seq (auto_close_loop e now cutoff ts w) = pending_seq w \<and>
   submitted (auto_close_loop e now cutoff ts w) = submitted w \<and>
   sleeps (auto_close_loop e now cutoff ts w) = sleeps w"
  by (induction ts arbitrary: w)
     (auto simp: close_trade_def close_position_def Let_def split: option.splits)

lemma auto_close_loop_requests:
  "close_requests (auto_close_loop e now cutoff ts w) =
     close_requests w @
     map close_symbol
       (filter (\<lambda>t. case t_opened_at t of None \<Rightarrow> False | Some opened_at \<Rightarrow> opened_at < cutoff) ts)"
  by (induction ts arbitrary: w)
     (auto simp: close_trade_def close_position_def close_symbol_def Let_def split: option.splits)

lemma auto_close_stale_trades:
  assumes "distinct (map t_id (trades w))"
  shows "trades (auto_close_stale e now cfg w) =
           map (\<lambda>r. if t_status r = ''open''
                     then stale_closed_row e now (now - holding_period_days cfg * usec_per_day) r
                     else r) (trades w)"
proof -
  let ?cutoff = "now - holding_period_days cfg * usec_per_day"
  have sub: "set (get_open_trades w) \<subseteq> set (trades w)"
    by (auto simp: get_open_trades_set)
  have "trades (auto_close_loop e now ?cutoff (get_open_trades w) w) =
          map (\<lambda>r. if t_id r \<in> t_id ` set (get_open_trades w)
                    then stale_closed_row e now ?cutoff r else r) (trades w)"
    by (rule auto_close_loop_trades[OF assms sub get_open_trades_distinct[OF assms]])
  also have "\<dots> = map (\<lambda>r. if t_status r = ''open'' then stale_closed_row e now ?cutoff r else r)
                        (trades w)"
    by (rule map_cong[OF refl]) (simp add: open_id_iff[OF assms])
  finally show ?thesis by (simp add: auto_close_stale_def Let_def)
qed

lemma auto_close_stale_ids:
  assumes "distinct (map t_id (trades w))"
  shows "map t_id (trades (auto_close_stale e now cfg w)) = map t_id (trades w)"
  by (simp add: auto_close_stale_trades[OF assms] comp_def cong: if_cong)

text \<open>
  C7. In a P\&L refresh pass over a table with distinct row ids, every open trade whose
  price lookup yields a positive price \<open>p\<close> ends with \<open>current_price = p\<close> and, when
  its direction is \<^verbatim>\<open>long\<close>, with \<open>pnl = (p - entry) * qty\<close>; when its direction is
  \<^verbatim>\<open>short\<close>, with \<open>pnl = (entry - p) * qty\<close>. Ids stay distinct, so this is the one
  row of that trade.
\<close>

theorem refresh_pnl_persists_unrealized:
  assumes "distinct (map t_id (trades w))"
    and "t \<in> set (trades w)"
    and "t_status t = ''open''"
    and "get_current_price e (t_ticker t) (asset_type_or_stock t) = Some p"
    and "0 < p"
  shows "(t_direction t = ''long'' \<longrightarrow>
           t\<lparr>t_current_price := Some p, t_pnl := Some ((p - t_entry_price t) * t_qty t)\<rparr>
             \<in> set (trades (refresh_pnl e w))) \<and>
         (t_direction t = ''short'' \<longrightarrow>
           t\<lparr>t_current_price := Some p, t_pnl := Some ((t_entry_price t - p) * t_qty t)\<rparr>
             \<in> set (trades (refresh_pnl e w))) \<and>
         distinct (map t_id (trades (refresh_pnl e w)))"
proof -
  have "refreshed_row e t \<in> set (trades (refresh_pnl e w))"
    using assms(2,3) by (force simp: refresh_pnl_trades[OF assms(1)])
  moreover have "refreshed_row e t = t\<lparr>t_current_price := Some p, t_pnl := Some (pnl_at t p)\<rparr>"
    using assms(4,5) by (simp add: refreshed_row_def)
  ultimately show ?thesis
    using assms(1) by (auto simp: pnl_at_def refresh_pnl_ids)
qed

text \<open>
  The figures of the specification: price 100, entry 90, quantity 10 give 100 for a long
  and \<open>- 100\<close> for a short position.
\<close>

theorem refresh_pnl_persists_unrealized_witness:
  "ex_trade 1 ''AAPL'' ''long'' 0
       \<lparr>t_current_price := Some 100, t_pnl := Some 100\<rparr>
     \<in> set (trades (refresh_pnl ex_env (ex_world [ex_trade 1 ''AAPL'' ''long'' 0]))) \<and>
   ex_trade 1 ''AAPL'' ''short'' 0
       \<lparr>t_current_price := Some 100, t_pnl := Some (- 100)\<rparr>
     \<in> set (trades (refresh_pnl ex_env (ex_world [ex_trade 1 ''AAPL'' ''short'' 0])))"
proof -
  have price: "\<And>d. get_current_price ex_env (t_ticker (ex_trade 1 ''AAPL'' d 0))
                  (asset_type_or_stock (ex_trade 1 ''AAPL'' d 0)) = Some 100"
    by (simp add: get_current_price_def ex_env_def ex_trade_def asset_type_or_stock_def
                  to_alpaca_stock_symbol_def upper_def upper_char_def)
  have l: "ex_trade 1 ''AAPL'' ''long'' 0
       \<lparr>t_current_price := Some 100, t_pnl := Some 100\<rparr>
     \<in> set (trades (refresh_pnl ex_env (ex_world [ex_trade 1 ''AAPL'' ''long'' 0])))"
    using refresh_pnl_persists_unrealized
            [of "ex_world [ex_trade 1 ''AAPL'' ''long'' 0]" "ex_trade 1 ''AAPL'' ''long'' 0"
                ex_env 100, OF _ _ _ price]
    by (simp add: ex_world_def ex_trade_def)
  have s: "ex_trade 1 ''AAPL'' ''short'' 0
       \<lparr>t_current_price := Some 100, t_pnl := Some (- 100)\<rparr>
     \<in> set (trades (refresh_pnl ex_env (ex_world [ex_trade 1 ''AAPL'' ''short'' 0])))"
    using refresh_pnl_persists_unrealized
            [of "ex_world [ex_trade 1 ''AAPL'' ''short'' 0]" "ex_trade 1 ''AAPL'' ''short'' 0"
                ex_env 100, OF _ _ _ price]
    by (simp add: ex_world_def ex_trade_def)
  from l s show ?thesis by simp
qed

text \<open>
  C10. In a P\&L refresh pass over a table with distinct row ids, an open trade whose price
  lookup gives nothing, or a price that is not positive, keeps its row as it was, every
  column of it; and every open trade of the same pass that does have a positive price is
  updated all the same.
\<close>

theorem refresh_pnl_skips_unpriced:
  assumes "distinct (map t_id (trades w))"
    and "t \<in> set (trades w)"
    and "t_status t = ''open''"
    and "get_current_price e (t_ticker t) (asset_type_or_stock t) = None \<or>
         (\<exists>p. get_current_price e (t_ticker t) (asset_type_or_stock t) = Some p \<and> p \<le> 0)"
  shows "t \<in> set (trades (refresh_pnl e w)) \<and>
         (\<forall>u \<in> set (trades w). \<forall>p.
            t_status u = ''open'' \<and>
            get_current_price e (t_ticker u) (asset_type_or_stock u) = Some p \<and> 0 < p \<longrightarrow>
            u\<lparr>t_current_price := Some p,
              t_pnl := Some (if t_direction u = ''long'' then (p - t_entry_price u) * t_qty u
                             else (t_entry_price u - p) * t_qty u)\<rparr>
              \<in> set (trades (refresh_pnl e w)))"
proof (intro conjI ballI allI impI)
  have "refreshed_row e t = t"
    using assms(4) by (auto simp: refreshed_row_def)
  moreover have "refreshed_row e t \<in> set (trades (refresh_pnl e w))"
    using assms(2,3) by (force simp: refresh_pnl_trades[OF assms(1)])
  ultimately show "t \<in> set (trades (refresh_pnl e w))" by simp
next
  fix u p
  assume u: "u \<in> set (trades w)"
    and h: "t_status u = ''open'' \<and>
            get_current_price e (t_ticker u) (asset_type_or_stock u) = Some p \<and> 0 < p"
  have "refreshed_row e u \<in> set (trades (refresh_pnl e w))"
    using u h by (force simp: refresh_pnl_trades[OF assms(1)])
  moreover have "refreshed_row e u = u\<lparr>t_current_price := Some p, t_pnl := Some (pnl_at u p)\<rparr>"
    using h by (simp add: refreshed_row_def)
  ultimately show "u\<lparr>t_current_price := Some p,
              t_pnl := Some (if t_direction u = ''long'' then (p - t_entry_price u) * t_qty u
                             else (t_entry_price u - p) * t_qty u)\<rparr>
              \<in> set (trades (refresh_pnl e w))"
    by (simp add: pnl_at_def)
qed

text \<open>
  Two open trades, the first without a quote: it is left alone and the second is repriced.
\<close>

theorem refresh_pnl_skips_unpriced_witness:
  "ex_trade 1 ''MSFT'' ''long'' 0
     \<in> set (trades (refresh_pnl ex_env
               (ex_world [ex_trade 1 ''MSFT'' ''long'' 0, ex_trade 2 ''AAPL'' ''long'' 0]))) \<and>
   ex_trade 2 ''AAPL'' ''long'' 0\<lparr>t_current_price := Some 100, t_pnl := Some 100\<rparr>
     \<in> set (trades (refresh_pnl ex_env
               (ex_world [ex_trade 1 ''MSFT'' ''long'' 0, ex_trade 2 ''AAPL'' ''long'' 0])))"
proof -
  let ?w = "ex_world [ex_trade 1 ''MSFT'' ''long'' 0, ex_trade 2 ''AAPL'' ''long'' 0]"
  have none: "get_current_price ex_env (t_ticker (ex_trade 1 ''MSFT'' ''long'' 0))
                  (asset_type_or_stock (ex_trade 1 ''MSFT'' ''long'' 0)) = None"
    by (simp add: get_current_price_def ex_env_def ex_trade_def asset_type_or_stock_def
                  to_alpaca_stock_symbol_def upper_def upper_char_def)
  have price: "get_current_price ex_env (t_ticker (ex_trade 2 ''AAPL'' ''long'' 0))
                  (asset_type_or_stock (ex_trade 2 ''AAPL'' ''long'' 0)) = Some 100"
    by (simp add: get_current_price_def ex_env_def ex_trade_def asset_type_or_stock_def
                  to_alpaca_stock_symbol_def upper_def upper_char_def)
  have d: "distinct (map t_id (trades ?w))"
    by (simp add: ex_world_def ex_trade_def)
  have m: "ex_trade 1 ''MSFT'' ''long'' 0 \<in> set (trades ?w)"
    and m2: "ex_trade 2 ''AAPL'' ''long'' 0 \<in> set (trades ?w)"
    by (simp_all add: ex_world_def)
  have st1: "t_status (ex_trade 1 ''MSFT'' ''long'' 0) = ''open''"
    and st2: "t_status (ex_trade 2 ''AAPL'' ''long'' 0) = ''open''"
    by (simp_all add: ex_trade_def)
  note inst = refresh_pnl_skips_unpriced[OF d m st1 disjI1[OF none]]
  from inst have a: "ex_trade 1 ''MSFT'' ''long'' 0 \<in> set (trades (refresh_pnl ex_env ?w))"
    by (rule conjunct1)
  from inst m2 st2 price
  have "ex_trade 2 ''AAPL'' ''long'' 0\<lparr>t_current_price := Some 100,
          t_pnl := Some (if t_direction (ex_trade 2 ''AAPL'' ''long'' 0) = ''long''
                         then (100 - t_entry_price (ex_trade 2 ''AAPL'' ''long'' 0))
                              * t_qty (ex_trade 2 ''AAPL'' ''long'' 0)
                         else (t_entry_price (ex_trade 2 ''AAPL'' ''long'' 0) - 100)
                              * t_qty (ex_trade 2 ''AAPL'' ''long'' 0))\<rparr>
         \<in> set (trades (refresh_pnl ex_env ?w))"
    by (meson zero_less_numeral)
  then have b: "ex_trade 2 ''AAPL'' ''long'' 0\<lparr>t_current_price := Some 100, t_pnl := Some 100\<rparr>
     \<in> set (trades (refresh_pnl ex_env ?w))"
    by (simp add: ex_trade_def)
  from a b show ?thesis by simp
qed

text \<open>
  C6. A stale-close pass at \<open>now\<close> over a table with distinct row ids, for an open
  trade opened at \<open>opened_at\<close>. If \<open>opened_at\<close> is strictly before
  \<open>now - holding_period_days\<close>, the pass asks the execution adapter to close the position
  (the symbol is among the close requests made by this pass). If the request succeeds, the
  row becomes closed, with the closing time and the final price: the price \<open>p\<close> when the
  lookup yields \<open>p\<close>, and 0 when it yields nothing; the P\&L is the one at that price under
  the sign convention of the refresh. If the request fails, the row is unchanged, still
  open and still stale for the next pass. If \<open>opened_at\<close> is not before the cutoff, the
  row is unchanged. The close requests of the pass are exactly those for the open trades
  opened before the cutoff, one each, in the order of \<^verbatim>\<open>get_open_trades\<close>: a trade
  within the holding period gets none.
\<close>

theorem auto_close_stale_closes_old_positions:
  assumes "distinct (map t_id (trades w))"
    and "t \<in> set (trades w)"
    and "t_status t = ''open''"
    and "t_opened_at t = Some opened_at"
  shows
    "(opened_at < now - holding_period_days cfg * usec_per_day \<longrightarrow>
        close_symbol t \<in> set (drop (length (close_requests w))
                                  (close_requests (auto_close_stale e now cfg w))) \<and>
        (close_position_ok e (close_symbol t) \<longrightarrow>
           (\<forall>p. get_current_price e (t_ticker t) (asset_type_or_stock t) = Some p \<longrightarrow>
              t\<lparr>t_status := ''closed'', t_closed_at := Some now,
                t_current_price := Some p,
                t_pnl := Some (if t_direction t = ''long''
                               then (p - t_entry_price t) * t_qty t
                               else (t_entry_price t - p) * t_qty t)\<rparr>
                \<in> set (trades (auto_close_stale e now cfg w))) \<and>
           (get_current_price e (t_ticker t) (asset_type_or_stock t) = None \<longrightarrow>
              t\<lparr>t_status := ''closed'', t_closed_at := Some now,
                t_current_price := Some 0,
                t_pnl := Some (if t_direction t = ''long''
                               then (0 - t_entry_price t) * t_qty t
                               else (t_entry_price t - 0) * t_qty t)\<rparr>
                \<in> set (trades (auto_close_stale e now cfg w)))) \<and>
        (\<not> close_position_ok e (close_symbol t) \<longrightarrow>
           t \<in> set (trades (auto_close_stale e now cfg w)))) \<and>
     (\<not> opened_at < now - holding_period_days cfg * usec_per_day \<longrightarrow>
        t \<in> set (trades (auto_close_stale e now cfg w))) \<and>
     close_requests (auto_close_stale e now cfg w) =
       close_requests w @
       map close_symbol
         (filter (\<lambda>u. case t_opened_at u of
                         None \<Rightarrow> False
                       | Some opened \<Rightarrow> opened < now - holding_period_days cfg * usec_per_day)
                 (get_open_trades w)) \<and>
     distinct (map t_id (trades (auto_close_stale e now cfg w)))"
proof -
  let ?cutoff = "now - holding_period_days cfg * usec_per_day"
  have row: "stale_closed_row e now ?cutoff t \<in> set (trades (auto_close_stale e now cfg w))"
    using assms(2,3) by (force simp: auto_close_stale_trades[OF assms(1)])
  have reqs: "close_requests (auto_close_stale e now cfg w) =
       close_requests w @
       map close_symbol
         (filter (\<lambda>u. case t_opened_at u of None \<Rightarrow> False | Some opened \<Rightarrow> opened < ?cutoff)
                 (get_open_trades w))"
    by (simp add: auto_close_stale_def auto_close_loop_requests)
  have req: "opened_at < ?cutoff \<Longrightarrow>
               close_symbol t \<in> set (drop (length (close_requests w))
                                  (close_requests (auto_close_stale e now cfg w)))"
    using assms(2,3,4)
    by (auto simp: reqs get_open_trades_set image_iff intro!: bexI[of _ t])
  have d: "distinct (map t_id (trades (auto_close_stale e now cfg w)))"
    using assms(1) by (simp add: auto_close_stale_ids)
  have closed_some: "opened_at < ?cutoff \<Longrightarrow> close_position_ok e (close_symbol t) \<Longrightarrow>
          get_current_price e (t_ticker t) (asset_type_or_stock t) = Some p \<Longrightarrow>
          t\<lparr>t_status := ''closed'', t_closed_at := Some now, t_current_price := Some p,
            t_pnl := Some (if t_direction t = ''long''
                           then (p - t_entry_price t) * t_qty t
                           else (t_entry_price t - p) * t_qty t)\<rparr>
            \<in> set (trades (auto_close_stale e now cfg w))" for p
    using row assms(4) by (simp add: stale_closed_row_def pnl_at_def or_zero_def)
  have closed_none: "opened_at < ?cutoff \<Longrightarrow> close_position_ok e (close_symbol t) \<Longrightarrow>
          get_current_price e (t_ticker t) (asset_type_or_stock t) = None \<Longrightarrow>
          t\<lparr>t_status := ''closed'', t_closed_at := Some now, t_current_price := Some 0,
            t_pnl := Some (if t_direction t = ''long''
                           then (0 - t_entry_price t) * t_qty t
                           else (t_entry_price t - 0) * t_qty t)\<rparr>
            \<in> set (trades (auto_close_stale e now cfg w))"
    using row assms(4) by (simp add: stale_closed_row_def pnl_at_def or_zero_def)
  have kept: "\<not> (opened_at < ?cutoff \<and> close_position_ok e (close_symbol t)) \<Longrightarrow>
          t \<in> set (trades (auto_close_stale e now cfg w))"
    using row assms(4) by (auto simp: stale_closed_row_def)
  show ?thesis
    using req closed_some closed_none kept reqs d by blast
qed

text \<open>
  Holding period 7 days, at day 100. AAPL, opened 8 days ago and quoted at 100, is closed
  with a P\&L of 100. MSFT, opened 9 days ago and without a quote, is closed at the price
  0 with a P\&L of \<open>(0 - 90) * 10\<close>. TSLA, opened 6 days ago, is left open and no close
  request is made for it.
\<close>

theorem auto_close_stale_closes_old_positions_witness:
  "ex_trade 1 ''AAPL'' ''long'' (92 * usec_per_day)
       \<lparr>t_status := ''closed'', t_closed_at := Some (100 * usec_per_day),
        t_current_price := Some 100, t_pnl := Some 100\<rparr>
     \<in> set (trades (auto_close_stale ex_env (100 * usec_per_day) ex_config
               (ex_world [ex_trade 1 ''AAPL'' ''long'' (92 * usec_per_day),
                          ex_trade 2 ''TSLA'' ''long'' (94 * usec_per_day),
                          ex_trade 3 ''MSFT'' ''long'' (91 * usec_per_day)]))) \<and>
   ex_trade 3 ''MSFT'' ''long'' (91 * usec_per_day)
       \<lparr>t_status := ''closed'', t_closed_at := Some (100 * usec_per_day),
        t_current_price := Some 0, t_pnl := Some (- 900)\<rparr>
     \<in> set (trades (auto_close_stale ex_env (100 * usec_per_day) ex_config
               (ex_world [ex_trade 1 ''AAPL'' ''long'' (92 * usec_per_day),
                          ex_trade 2 ''TSLA'' ''long'' (94 * usec_per_day),
                          ex_trade 3 ''MSFT'' ''long'' (91 * usec_per_day)]))) \<and>
   ex_trade 2 ''TSLA'' ''long'' (94 * usec_per_day)
     \<in> set (trades (auto_close_stale ex_env (100 * usec_per_day) ex_config
               (ex_world [ex_trade 1 ''AAPL'' ''long'' (92 * usec_per_day),
                          ex_trade 2 ''TSLA'' ''long'' (94 * usec_per_day),
                          ex_trade 3 ''MSFT'' ''long'' (91 * usec_per_day)]))) \<and>
   close_requests (auto_close_stale ex_env (100 * usec_per_day) ex_config
               (ex_world [ex_trade 1 ''AAPL'' ''long'' (92 * usec_per_day),
                          ex_trade 2 ''TSLA'' ''long'' (94 * usec_per_day),
                          ex_trade 3 ''MSFT'' ''long'' (91 * usec_per_day)]))
     = [''AAPL'', ''MSFT'']"
proof -
  let ?now = "100 * usec_per_day"
  let ?t1 = "ex_trade 1 ''AAPL'' ''long'' (92 * usec_per_day)"
  let ?t2 = "ex_trade 2 ''TSLA'' ''long'' (94 * usec_per_day)"
  let ?t3 = "ex_trade 3 ''MSFT'' ''long'' (91 * usec_per_day)"
  let ?w = "ex_world [?t1, ?t2, ?t3]"
  let ?w' = "auto_close_stale ex_env ?now ex_config ?w"
  have d: "distinct (map t_id (trades ?w))"
    by (simp add: ex_world_def ex_trade_def)
  have m1: "?t1 \<in> set (trades ?w)" and m2: "?t2 \<in> set (trades ?w)"
    and m3: "?t3 \<in> set (trades ?w)"
    by (simp_all add: ex_world_def)
  have s1: "t_status ?t1 = ''open''" and s2: "t_status ?t2 = ''open''"
    and s3: "t_status ?t3 = ''open''"
    by (simp_all add: ex_trade_def)
  have o1: "t_opened_at ?t1 = Some (92 * usec_per_day)"
    and o2: "t_opened_at ?t2 = Some (94 * usec_per_day)"
    and o3: "t_opened_at ?t3 = Some (91 * usec_per_day)"
    by (simp_all add: ex_trade_def)
  have sym1: "close_symbol ?t1 = ''AAPL''" and sym2: "close_symbol ?t2 = ''TSLA''"
    and sym3: "close_symbol ?t3 = ''MSFT''"
    by (simp_all add: close_symbol_def ex_trade_def asset_type_or_stock_def
                      to_alpaca_stock_symbol_def upper_def upper_char_def)
  have price1: "get_current_price ex_env (t_ticker ?t1) (asset_type_or_stock ?t1) = Some 100"
    and price3: "get_current_price ex_env (t_ticker ?t3) (asset_type_or_stock ?t3) = None"
    by (simp_all add: get_current_price_def ex_env_def ex_trade_def asset_type_or_stock_def
                      to_alpaca_stock_symbol_def upper_def upper_char_def)
  have stale1: "92 * usec_per_day < ?now - holding_period_days ex_config * usec_per_day"
    and fresh2: "\<not> 94 * usec_per_day < ?now - holding_period_days ex_config * usec_per_day"
    and stale3: "91 * usec_per_day < ?now - holding_period_days ex_config * usec_per_day"
    by (simp_all add: ex_config_def usec_per_day_def)
  have ok: "\<And>s. close_position_ok ex_env s"
    by (simp add: ex_env_def)
  note i1 = auto_close_stale_closes_old_positions[OF d m1 s1 o1, of ?now ex_config ex_env]
  note i2 = auto_close_stale_closes_old_positions[OF d m2 s2 o2, of ?now ex_config ex_env]
  note i3 = auto_close_stale_closes_old_positions[OF d m3 s3 o3, of ?now ex_config ex_env]
  let ?closed1 = "?t1\<lparr>t_status := ''closed'', t_closed_at := Some ?now,
             t_current_price := Some 100,
             t_pnl := Some (if t_direction ?t1 = ''long''
                            then (100 - t_entry_price ?t1) * t_qty ?t1
                            else (t_entry_price ?t1 - 100) * t_qty ?t1)\<rparr>"
  let ?closed3 = "?t3\<lparr>t_status := ''closed'', t_closed_at := Some ?now,
             t_current_price := Some 0,
             t_pnl := Some (if t_direction ?t3 = ''long''
                            then (0 - t_entry_price ?t3) * t_qty ?t3
                            else (t_entry_price ?t3 - 0) * t_qty ?t3)\<rparr>"
  from i1 stale1 ok price1 have a0: "?closed1 \<in> set (trades ?w')"
    by blast
  have eq1: "?closed1 = ?t1\<lparr>t_status := ''closed'', t_closed_at := Some ?now,
                            t_current_price := Some 100, t_pnl := Some 100\<rparr>"
    by (simp add: ex_trade_def)
  from i3 stale3 ok price3 have b0: "?closed3 \<in> set (trades ?w')"
    by blast
  have eq3: "?closed3 = ?t3\<lparr>t_status := ''closed'', t_closed_at := Some ?now,
                            t_current_price := Some 0, t_pnl := Some (- 900)\<rparr>"
    by (simp add: ex_trade_def)
  from i2 fresh2 have c: "?t2 \<in> set (trades ?w')"
    by blast
  have order: "get_open_trades ?w = [?t2, ?t1, ?t3]"
    by (simp add: get_open_trades_def ex_world_def ex_trade_def usec_per_day_def)
  from i1 have "close_requests ?w' =
       close_requests ?w @
       map close_symbol
         (filter (\<lambda>u. case t_opened_at u of
                         None \<Rightarrow> False
                       | Some opened \<Rightarrow>
                           opened < ?now - holding_period_days ex_config * usec_per_day)
                 (get_open_trades ?w))"
    by blast
  then have r: "close_requests ?w' = [''AAPL'', ''MSFT'']"
    unfolding order using stale1 fresh2 stale3 o1 o2 o3 sym1 sym3
    by (simp add: ex_world_def)
  from a0 b0 c r show ?thesis
    unfolding eq1 eq3 by blast
qed

subsection \<open>Execution and the pipeline\<close>

text \<open>
  C5. For a signal of asset class \<^verbatim>\<open>crypto\<close> and direction \<^verbatim>\<open>short\<close>,
  \<^verbatim>\<open>execute\<close> returns false and leaves the world as it was: no order reaches the
  brokerage (the log \<open>submitted\<close> is unchanged, and the retry wrapper, which calls the
  brokerage at least once, has not run: \<open>sleeps\<close> is unchanged too), and no trade and no
  pending order is saved.
\<close>

theorem execute_crypto_short_rejected:
  assumes "sig_asset_type sig = ''crypto''" and "sig_direction sig = ''short''"
  shows "execute e now cfg sig w = (Inr False, w)"
  using assms by (simp add: execute_def execute_crypto_def)

text \<open>
  A short signal for BTC, with a brokerage that would quote and accept it.
\<close>

theorem execute_crypto_short_rejected_witness:
  "execute ex_env 0 ex_config (ex_signal ''BTC'' ''crypto'' ''short'') (ex_world [])
     = (Inr False, ex_world [])"
  using execute_crypto_short_rejected
          [of "ex_signal ''BTC'' ''crypto'' ''short''" ex_env 0 ex_config "ex_world []"]
  by (simp add: ex_signal_def)

lemma nearest_double_5: "nearest_double 5 = 5"
  by code_simp

lemma nearest_double_10_3: "nearest_double (10 / 3) = 7505999378950827 / 2251799813685248"
  by code_simp

lemma round_to_double_5: "round_to_double 5 = Some 5"
  by (simp add: round_to_double_def nearest_double_5)

lemma quotient_500_100: "round_to_double (max_position_size_usd ex_config / 100) = Some 5"
  by (simp add: ex_config_def round_to_double_5)

lemma quotient_500_150:
  "round_to_double (max_position_size_usd ex_config / 150)
     = Some (7505999378950827 / 2251799813685248)"
  by (simp add: round_to_double_def ex_config_def nearest_double_10_3)

lemma quotient_overflow:
  "round_to_double (max_position_size_usd ex_config / (1 / 2 ^ 1074)) = None"
  by (simp add: round_to_double_def ex_config_def)

lemma execute_stock_overflow:
  assumes "sig_asset_type sig = ''stock''"
    and "get_current_price e (sig_ticker sig) ''stock'' = Some price"
    and "0 < price"
    and "round_to_double (max_position_size_usd cfg / price) = None"
  shows "execute e now cfg sig w = (Inl OverflowError, w)"
  using assms by (simp add: execute_def execute_stock_def)

text \<open>
  C4, with two conditions added. For a stock signal with a positive price available while
  the market is closed, \<^verbatim>\<open>execute\<close> returns true, appends exactly one row to \<^verbatim>\<open>pending_orders\<close>
  (the normalised symbol, the direction and the whole-share quantity of the signal), and
  changes nothing else: no trade row is created and no order is submitted. The
  conditions: the \<^verbatim>\<open>signal_id\<close> of the signal is unset or names a saved
  signal (as it does for every signal that \<^verbatim>\<open>SignalParser.parse\<close> returns), and the
  float quotient \<^verbatim>\<open>max_position_size_usd / price\<close> is finite.
\<close>

theorem execute_stock_market_closed_defers:
  assumes "sig_asset_type sig = ''stock''"
    and "get_current_price e (sig_ticker sig) ''stock'' = Some price"
    and "0 < price"
    and "\<not> is_market_open e"
    and "signal_fk_holds (sig_signal_id sig) w"
    and "round_to_double (max_position_size_usd cfg / price) = Some ratio"
  shows "execute e now cfg sig w =
           (Inr True,
            w\<lparr>pending_orders := pending_orders w @
                 [\<lparr>p_id = next_rowid (pending_seq w) (map p_id (pending_orders w)),
                   p_signal_id = sig_signal_id sig,
                   p_ticker = to_alpaca_stock_symbol (sig_ticker sig),
                   p_direction = sig_direction sig,
                   p_qty = of_int (max 1 (py_int ratio)),
                   p_asset_type = ''stock'',
                   p_created_at = now\<rparr>],
               pending_seq := next_rowid (pending_seq w) (map p_id (pending_orders w))\<rparr>) \<and>
         trades (snd (execute e now cfg sig w)) = trades w \<and>
         submitted (snd (execute e now cfg sig w)) = submitted w \<and>
         length (pending_orders (snd (execute e now cfg sig w))) = Suc (length (pending_orders w))"
  using assms by (simp add: execute_def execute_stock_def save_pending_order_def Let_def)

text \<open>
  A short signal for \<^verbatim>\<open>aapl\<close>, saved as signal 1, at a quote of 150 with 500 USD per
  position: three shares of AAPL are queued.
\<close>

theorem execute_stock_market_closed_defers_witness:
  "execute ex_env_closed_150 5 ex_config
           ((ex_signal ''aapl'' ''stock'' ''short'')\<lparr>sig_signal_id := Some 1\<rparr>) ex_world_saved
     = (Inr True,
        ex_world_saved\<lparr>pending_orders :=
             [\<lparr>p_id = 1, p_signal_id = Some 1, p_ticker = ''AAPL'', p_direction = ''short'',
               p_qty = 3, p_asset_type = ''stock'', p_created_at = 5\<rparr>],
           pending_seq := 1\<rparr>)"
proof -
  let ?e = "ex_env\<lparr>stock_quote := \<lambda>s. if s = ''AAPL'' then Some 150 else None,
                   clock_is_open := Some False\<rparr>"
  let ?s = "(ex_signal ''aapl'' ''stock'' ''short'')\<lparr>sig_signal_id := Some 1\<rparr>"
  have sym: "to_alpaca_stock_symbol ''aapl'' = ''AAPL''"
    by (simp add: to_alpaca_stock_symbol_def upper_def upper_char_def)
  have a: "sig_asset_type ?s = ''stock''" by (simp add: ex_signal_def)
  have p: "get_current_price ?e (sig_ticker ?s) ''stock'' = Some 150"
    by (simp add: get_current_price_def ex_signal_def sym)
  have c: "\<not> is_market_open ?e" by (simp add: is_market_open_def)
  have q: "py_int (7505999378950827 / 2251799813685248) = 3"
    by (simp add: py_int_def)
  have fk: "signal_fk_holds (sig_signal_id ?s) ex_world_saved"
    by (simp add: signal_fk_holds_def ex_world_saved_def ex_signal_row_def)
  from execute_stock_market_closed_defers[OF a p _ c fk quotient_500_150, of 5]
  show ?thesis
    unfolding ex_env_closed_150_def
    by (simp add: q sym ex_signal_def ex_world_saved_def ex_world_def next_rowid_def)
qed

text \<open>
  Without those conditions C4 fails, on two stock signals with a positive price and a
  closed market. The first carries a \<^verbatim>\<open>signal_id\<close> that names no row of \<^verbatim>\<open>signals\<close>: the
  foreign key makes \<^verbatim>\<open>db.save_pending_order\<close> raise, the exception leaves
  \<^verbatim>\<open>execute\<close>, and nothing is queued. The second is quoted at the smallest positive
  double: the quotient is infinite and \<^verbatim>\<open>int\<close> raises OverflowError.
\<close>

theorem execute_stock_market_closed_counterexample:
  "sig_asset_type ex_signal_dangling = ''stock'' \<and>
   get_current_price ex_env_closed (sig_ticker ex_signal_dangling) ''stock'' = Some 100 \<and>
   \<not> is_market_open ex_env_closed \<and>
   execute ex_env_closed 5 ex_config ex_signal_dangling (ex_world [])
     = (Inl IntegrityError, ex_world []) \<and>
   sig_asset_type (ex_signal ''AAPL'' ''stock'' ''long'') = ''stock'' \<and>
   get_current_price ex_env_closed_tiny (sig_ticker (ex_signal ''AAPL'' ''stock'' ''long'')) ''stock''
     = Some (1 / 2 ^ 1074) \<and>
   \<not> is_market_open ex_env_closed_tiny \<and>
   execute ex_env_closed_tiny 5 ex_config (ex_signal ''AAPL'' ''stock'' ''long'') (ex_world [])
     = (Inl OverflowError, ex_world [])"
proof -
  have sym: "to_alpaca_stock_symbol ''AAPL'' = ''AAPL''"
    by (simp add: to_alpaca_stock_symbol_def upper_def upper_char_def)
  have closed: "\<not> is_market_open (ex_env\<lparr>clock_is_open := Some False\<rparr>)"
    by (simp add: is_market_open_def)
  have p1: "get_current_price (ex_env\<lparr>clock_is_open := Some False\<rparr>) ''AAPL'' ''stock'' = Some 100"
    by (simp add: get_current_price_def sym ex_env_def)
  have p2: "get_current_price
              (ex_env\<lparr>stock_quote := \<lambda>s. if s = ''AAPL'' then Some (1 / 2 ^ 1074) else None,
                      clock_is_open := Some False\<rparr>) ''AAPL'' ''stock'' = Some (1 / 2 ^ 1074)"
    by (simp add: get_current_price_def sym)
  have dangling: "\<not> signal_fk_holds (Some 999) (ex_world [])"
    by (simp add: signal_fk_holds_def ex_world_def)
  have e1: "execute (ex_env\<lparr>clock_is_open := Some False\<rparr>) 5 ex_config
              ((ex_signal ''AAPL'' ''stock'' ''long'')\<lparr>sig_signal_id := Some 999\<rparr>) (ex_world [])
            = (Inl IntegrityError, ex_world [])"
    using closed dangling
    by (simp add: execute_def execute_stock_def ex_signal_def p1 quotient_500_100
                  save_pending_order_def Let_def)
  have e2: "execute (ex_env\<lparr>stock_quote := \<lambda>s. if s = ''AAPL'' then Some (1 / 2 ^ 1074) else None,
                           clock_is_open := Some False\<rparr>) 5 ex_config
              (ex_signal ''AAPL'' ''stock'' ''long'') (ex_world [])
            = (Inl OverflowError, ex_world [])"
  proof (rule execute_stock_overflow)
    show "sig_asset_type (ex_signal ''AAPL'' ''stock'' ''long'') = ''stock''"
      by (simp add: ex_signal_def)
    show "get_current_price
            (ex_env\<lparr>stock_quote := \<lambda>s. if s = ''AAPL'' then Some (1 / 2 ^ 1074) else None,
                    clock_is_open := Some False\<rparr>)
            (sig_ticker (ex_signal ''AAPL'' ''stock'' ''long'')) ''stock'' = Some (1 / 2 ^ 1074)"
      using p2 by (simp add: ex_signal_def)
    show "(0::real) < 1 / 2 ^ 1074" by simp
    show "round_to_double (max_position_size_usd ex_config / (1 / 2 ^ 1074)) = None"
      by (rule quotient_overflow)
  qed
  have closed2: "\<not> is_market_open
                     (ex_env\<lparr>stock_quote := \<lambda>s. if s = ''AAPL'' then Some (1 / 2 ^ 1074) else None,
                             clock_is_open := Some False\<rparr>)"
    by (simp add: is_market_open_def)
  show ?thesis
    unfolding ex_env_closed_def ex_env_closed_tiny_def ex_signal_dangling_def
    using closed closed2 p1 p2 e1 e2 by (simp add: ex_signal_def)
qed

lemma day_of_mono: "a \<le> b \<Longrightarrow> day_of a \<le> day_of b"
  by (simp add: day_of_def usec_per_day_def zdiv_mono1)

lemma get_open_trade_for_ticker_signals [simp]:
  "get_open_trade_for_ticker ticker (w\<lparr>signals := ss, signals_seq := n\<rparr>)
     = get_open_trade_for_ticker ticker w"
  by (simp add: get_open_trade_for_ticker_def)

text \<open>
  C3. \<^verbatim>\<open>run_pipeline\<close> saves the signal (at \<open>t_parse\<close>) before it asks for admission
  (at \<open>t_admit\<close>). When no more than 24 hours pass in between, the dedup query of
  step 2 finds the row just saved, so \<^verbatim>\<open>maybe_open_position\<close> returns false, whatever
  the trades and the earlier signals are, and the pipeline step leaves no trade, no
  pending order and no brokerage call behind.
\<close>

theorem run_pipeline_always_deduplicated:
  assumes "t_admit - t_parse \<le> 24 * usec_per_hour"
  shows "has_recent_signal_for_ticker t_admit (sig_ticker sig) 24 (snd (parse_persist t_parse sig w)) \<and>
         run_pipeline e t_parse t_admit cfg sig w = (Inr False, snd (parse_persist t_parse sig w)) \<and>
         trades (snd (run_pipeline e t_parse t_admit cfg sig w)) = trades w \<and>
         pending_orders (snd (run_pipeline e t_parse t_admit cfg sig w)) = pending_orders w \<and>
         submitted (snd (run_pipeline e t_parse t_admit cfg sig w)) = submitted w"
proof -
  have "t_admit - 24 * usec_per_hour \<le> t_parse" using assms by simp
  then have days: "day_of (t_admit - 24 * usec_per_hour) \<le> day_of t_parse"
    by (rule day_of_mono)
  have recent: "has_recent_signal_for_ticker t_admit (sig_ticker sig) 24
                  (snd (parse_persist t_parse sig w))"
    using days
    by (auto simp: has_recent_signal_for_ticker_def parse_persist_def save_signal_def Let_def
                   iso_text_gt_sqlite_text_def)
  have tick: "sig_ticker (fst (parse_persist t_parse sig w)) = sig_ticker sig"
    by (simp add: parse_persist_def save_signal_def Let_def)
  have run: "run_pipeline e t_parse t_admit cfg sig w = (Inr False, snd (parse_persist t_parse sig w))"
    using recent
    by (simp add: run_pipeline_def maybe_open_position_def split_beta tick Let_def
             split: option.splits)
  have frame: "trades (snd (parse_persist t_parse sig w)) = trades w \<and>
               pending_orders (snd (parse_persist t_parse sig w)) = pending_orders w \<and>
               submitted (snd (parse_persist t_parse sig w)) = submitted w"
    by (simp add: parse_persist_def save_signal_def Let_def)
  from recent run frame show ?thesis by simp
qed

text \<open>
  An empty database: through the pipeline the signal is rejected, although the ticker
  has no open trade and no earlier signal, and although the same signal handed straight
  to \<^verbatim>\<open>maybe_open_position\<close> is admitted.
\<close>

theorem run_pipeline_always_deduplicated_witness:
  "run_pipeline ex_env 1000 2000 ex_config (ex_signal ''AAPL'' ''stock'' ''long'') (ex_world [])
     = (Inr False, snd (parse_persist 1000 (ex_signal ''AAPL'' ''stock'' ''long'') (ex_world []))) \<and>
   get_open_trade_for_ticker ''AAPL'' (ex_world []) = None \<and>
   \<not> has_recent_signal_for_ticker 2000 ''AAPL'' 24 (ex_world []) \<and>
   fst (maybe_open_position ex_env 2000 ex_config (ex_signal ''AAPL'' ''stock'' ''long'') (ex_world []))
     = Inr True"
proof -
  have h: "(2000::int) - 1000 \<le> 24 * usec_per_hour" by (simp add: usec_per_hour_def)
  have a: "run_pipeline ex_env 1000 2000 ex_config (ex_signal ''AAPL'' ''stock'' ''long'') (ex_world [])
     = (Inr False, snd (parse_persist 1000 (ex_signal ''AAPL'' ''stock'' ''long'') (ex_world [])))"
    using run_pipeline_always_deduplicated[OF h] by blast
  have b: "get_open_trade_for_ticker ''AAPL'' (ex_world []) = None"
    by (simp add: get_open_trade_for_ticker_def ex_world_def)
  have c: "\<not> has_recent_signal_for_ticker 2000 ''AAPL'' 24 (ex_world [])"
    by (simp add: has_recent_signal_for_ticker_def ex_world_def)
  have sym: "to_alpaca_stock_symbol ''AAPL'' = ''AAPL''"
    by (simp add: to_alpaca_stock_symbol_def upper_def upper_char_def)
  have d: "fst (maybe_open_position ex_env 2000 ex_config (ex_signal ''AAPL'' ''stock'' ''long'') (ex_world []))
     = Inr True"
    unfolding maybe_open_position_def
    apply (simp add: ex_signal_def b c count_open_positions_def ex_config_def)
    apply (simp add: execute_def execute_stock_def get_current_price_def sym ex_env_def
                     round_to_double_5)
    apply (simp add: ex_world_def is_market_open_def submit_stock_order_def retry_def Let_def)
    apply (subst retry_from.simps)
    apply (simp add: trading_submit_order_def save_trade_def signal_fk_holds_def Let_def)
    done
  from a b c d show ?thesis by simp
qed

subsection \<open>Where the code departs from its documentation\<close>

lemma retry_submit_all_fail:
  assumes "\<And>n. submit_order e n req = None"
  shows "retry (trading_submit_order e req) 3 b w =
           (Raised, w\<lparr>submitted := submitted w @ [req, req, req],
                      sleeps := sleeps w @ [b, b * 2]\<rparr>)"
  unfolding retry_def
  apply (subst retry_from.simps)
  apply (subst retry_from.simps)
  apply (subst retry_from.simps)
  apply (simp add: trading_submit_order_def assms)
  done

lemma retry_submit_first_ok:
  assumes "submit_order e (length (submitted w)) req = Some oid"
  shows "retry (trading_submit_order e req) 3 b w =
           (Returned oid, w\<lparr>submitted := submitted w @ [req]\<rparr>)"
  unfolding retry_def
  apply (subst retry_from.simps)
  apply (simp add: trading_submit_order_def assms)
  done

text \<open>
  C2, on a failing input. One order is queued, the market is open, and the brokerage
  refuses every submission. \<^verbatim>\<open>_submit_stock_order\<close> makes its three attempts, catches
  the exception and returns false; \<^verbatim>\<open>submit_pending_orders\<close> does not look at that
  result and deletes the row. The queue ends empty with no trade recorded: the order is
  dropped.
\<close>

theorem submit_pending_orders_drops_failed_order:
  "pending_orders (ex_world_saved\<lparr>pending_orders := [ex_pending], pending_seq := 1\<rparr>) = [ex_pending] \<and>
   is_market_open (ex_env\<lparr>submit_order := \<lambda>n req. None\<rparr>) \<and>
   submit_stock_order (ex_env\<lparr>submit_order := \<lambda>n req. None\<rparr>) 10 (p_signal_id ex_pending)
       (p_ticker ex_pending) (p_direction ex_pending) (p_qty ex_pending) (p_asset_type ex_pending)
       (ex_world_saved\<lparr>pending_orders := [ex_pending], pending_seq := 1\<rparr>)
     = (False,
        ex_world_saved\<lparr>pending_orders := [ex_pending], pending_seq := 1,
                     submitted := replicate 3 (MarketOrderRequest ''AAPL'' 5 BUY DAY),
                     sleeps := [3 / 2, 3]\<rparr>) \<and>
   submit_pending_orders (ex_env\<lparr>submit_order := \<lambda>n req. None\<rparr>) 10
       (ex_world_saved\<lparr>pending_orders := [ex_pending], pending_seq := 1\<rparr>)
     = ex_world_saved\<lparr>pending_orders := [], pending_seq := 1,
                    submitted := replicate 3 (MarketOrderRequest ''AAPL'' 5 BUY DAY),
                    sleeps := [3 / 2, 3]\<rparr>"
proof -
  let ?e = "ex_env\<lparr>submit_order := \<lambda>n req. None\<rparr>"
  let ?w = "ex_world_saved\<lparr>pending_orders := [ex_pending], pending_seq := 1\<rparr>"
  have opn: "is_market_open ?e" by (simp add: is_market_open_def ex_env_def)
  have rep: "\<And>x::order_request. replicate 3 x = [x, x, x]" by (simp add: numeral_3_eq_3)
  have sub: "submit_stock_order ?e 10 (p_signal_id ex_pending) (p_ticker ex_pending)
               (p_direction ex_pending) (p_qty ex_pending) (p_asset_type ex_pending) ?w
             = (False, ?w\<lparr>submitted := replicate 3 (MarketOrderRequest ''AAPL'' 5 BUY DAY),
                          sleeps := [3 / 2, 3]\<rparr>)"
    by (simp add: submit_stock_order_def retry_submit_all_fail ex_pending_def ex_world_saved_def ex_world_def
                  rep)
  have "submit_pending_orders ?e 10 ?w
          = ex_world_saved\<lparr>pending_orders := [], pending_seq := 1,
                    submitted := replicate 3 (MarketOrderRequest ''AAPL'' 5 BUY DAY),
                    sleeps := [3 / 2, 3]\<rparr>"
    unfolding submit_pending_orders_def get_pending_orders_def
    using opn by (simp add: sub[simplified] delete_pending_order_def ex_world_saved_def ex_world_def ex_pending_def
                            submit_stock_order_def retry_submit_all_fail rep)
  with opn sub show ?thesis by simp
qed

lemma btc_symbol: "to_alpaca_crypto_symbol ''BTC'' = ''BTC/USD''"
  by (simp add: to_alpaca_crypto_symbol_def upper_def upper_char_def CRYPTO_MAP_def)

lemma btc_quotient:
  "round_to_double (max_position_size_usd ex_config / 50000) = Some (nearest_double (1 / 100))"
  by (simp add: round_to_double_def ex_config_def)

lemma nearest_double_1_100:
  "nearest_double (1 / 100) = 5764607523034235 / 576460752303423488"
  by code_simp

lemma nearest_double_1e_6:
  "nearest_double (1 / 1000000) = 4722366482869645 / 4722366482869645213696"
  by code_simp

lemma py_round6_1_100: "py_round6 (nearest_double (1 / 100)) = nearest_double (1 / 100)"
proof -
  have "py_round (5764607523034235 / 576460752303423488 * 1000000) = 10000"
    by (simp add: py_round_def Let_def)
  then have "py_round6 (5764607523034235 / 576460752303423488) = nearest_double (1 / 100)"
    by (simp add: py_round6_def)
  then show ?thesis by (simp add: nearest_double_1_100)
qed

lemma btc_qty:
  "max (py_round6 (nearest_double (1 / 100))) (nearest_double (1 / 1000000))
     = nearest_double (1 / 100)"
  unfolding py_round6_1_100
  by (simp add: nearest_double_1_100 nearest_double_1e_6)

text \<open>
  C1, on a failing input. Two admissions of a long crypto signal for \<^verbatim>\<open>BTC\<close>, one
  after the other, on an empty database (the signal carries no \<^verbatim>\<open>signal_id\<close>, as
  before the parser saves it). The first opens a trade whose stored
  ticker is the brokerage symbol \<^verbatim>\<open>BTC/USD\<close>. The second looks for an open trade with
  ticker \<^verbatim>\<open>BTC\<close>, finds none, and opens another: two open trades with ticker
  \<^verbatim>\<open>BTC/USD\<close> coexist. The quantity is the double that Python writes \<^verbatim>\<open>0.01\<close>.
\<close>

theorem maybe_open_position_opens_second_btc_trade:
  "maybe_open_position ex_env 1000 ex_config (ex_signal ''BTC'' ''crypto'' ''long'') (ex_world [])
     = (Inr True,
        (ex_world [])\<lparr>trades := [\<lparr>t_id = 1, t_signal_id = None, t_alpaca_order_id = ''order'',
                                   t_ticker = ''BTC/USD'', t_direction = ''long'',
                                   t_asset_type = ''crypto'', t_qty = nearest_double (1 / 100),
                                   t_entry_price = 50000, t_current_price = None,
                                   t_status = ''open'', t_opened_at = Some 1000,
                                   t_closed_at = None, t_pnl = None\<rparr>],
                      trades_seq := 1,
                      submitted := [MarketOrderRequest ''BTC/USD'' (nearest_double (1 / 100)) BUY GTC]\<rparr>) \<and>
   maybe_open_position ex_env 2000 ex_config (ex_signal ''BTC'' ''crypto'' ''long'')
     (snd (maybe_open_position ex_env 1000 ex_config (ex_signal ''BTC'' ''crypto'' ''long'')
             (ex_world [])))
     = (Inr True,
        (ex_world [])\<lparr>trades := [\<lparr>t_id = 1, t_signal_id = None, t_alpaca_order_id = ''order'',
                                   t_ticker = ''BTC/USD'', t_direction = ''long'',
                                   t_asset_type = ''crypto'', t_qty = nearest_double (1 / 100),
                                   t_entry_price = 50000, t_current_price = None,
                                   t_status = ''open'', t_opened_at = Some 1000,
                                   t_closed_at = None, t_pnl = None\<rparr>,
                                  \<lparr>t_id = 2, t_signal_id = None, t_alpaca_order_id = ''order'',
                                   t_ticker = ''BTC/USD'', t_direction = ''long'',
                                   t_asset_type = ''crypto'', t_qty = nearest_double (1 / 100),
                                   t_entry_price = 50000, t_current_price = None,
                                   t_status = ''open'', t_opened_at = Some 2000,
                                   t_closed_at = None, t_pnl = None\<rparr>],
                      trades_seq := 2,
                      submitted := [MarketOrderRequest ''BTC/USD'' (nearest_double (1 / 100)) BUY GTC,
                                    MarketOrderRequest ''BTC/USD'' (nearest_double (1 / 100)) BUY GTC]\<rparr>)"
proof -
  let ?s = "ex_signal ''BTC'' ''crypto'' ''long''"
  have price: "get_current_price ex_env ''BTC'' ''crypto'' = Some 50000"
    by (simp add: get_current_price_def btc_symbol ex_env_def)
  have ok: "\<And>n req. submit_order ex_env n req = Some ''order''"
    by (simp add: ex_env_def)
  have exec: "\<And>now w. execute ex_env now ex_config ?s w =
                (Inr True,
                 w\<lparr>submitted := submitted w @ [MarketOrderRequest ''BTC/USD'' (nearest_double (1 / 100)) BUY GTC],
                   trades := trades w @
                     [\<lparr>t_id = next_rowid (trades_seq w) (map t_id (trades w)),
                       t_signal_id = None, t_alpaca_order_id = ''order'',
                       t_ticker = ''BTC/USD'', t_direction = ''long'',
                       t_asset_type = ''crypto'', t_qty = nearest_double (1 / 100),
                       t_entry_price = 50000, t_current_price = None,
                       t_status = ''open'', t_opened_at = Some now,
                       t_closed_at = None, t_pnl = None\<rparr>],
                   trades_seq := next_rowid (trades_seq w) (map t_id (trades w))\<rparr>)"
    by (simp add: execute_def execute_crypto_def ex_signal_def btc_symbol price btc_quotient btc_qty
                  retry_submit_first_ok ok save_trade_def signal_fk_holds_def Let_def)
  have first: "maybe_open_position ex_env 1000 ex_config ?s (ex_world [])
     = (Inr True,
        (ex_world [])\<lparr>trades := [\<lparr>t_id = 1, t_signal_id = None, t_alpaca_order_id = ''order'',
                                   t_ticker = ''BTC/USD'', t_direction = ''long'',
                                   t_asset_type = ''crypto'', t_qty = nearest_double (1 / 100),
                                   t_entry_price = 50000, t_current_price = None,
                                   t_status = ''open'', t_opened_at = Some 1000,
                                   t_closed_at = None, t_pnl = None\<rparr>],
                      trades_seq := 1,
                      submitted := [MarketOrderRequest ''BTC/USD'' (nearest_double (1 / 100)) BUY GTC]\<rparr>)"
    unfolding maybe_open_position_def exec
    by (simp add: get_open_trade_for_ticker_def has_recent_signal_for_ticker_def
                  count_open_positions_def ex_world_def ex_config_def ex_signal_def
                  next_rowid_def Let_def)
  show ?thesis
    unfolding first
    unfolding maybe_open_position_def exec
    by (simp add: get_open_trade_for_ticker_def has_recent_signal_for_ticker_def
                  count_open_positions_def ex_world_def ex_config_def ex_signal_def
                  next_rowid_def Let_def)
qed

subsection \<open>The life cycle of a trade\<close>

lemma row_step_refl: "row_step a a"
  by (simp add: row_step_def)

lemma row_step_trans: "row_step a b \<Longrightarrow> row_step b c \<Longrightarrow> row_step a c"
  by (auto simp: row_step_def)

lemma table_step_refl: "distinct (map t_id xs) \<Longrightarrow> table_step xs xs"
  by (simp add: table_step_def row_step_refl)

lemma table_step_trans:
  assumes "table_step xs ys" "table_step ys zs"
  shows "table_step xs zs"
  unfolding table_step_def
proof (intro conjI allI impI)
  show "distinct (map t_id zs)" using assms(2) by (simp add: table_step_def)
  show "length xs \<le> length zs" using assms by (simp add: table_step_def)
next
  fix i assume i: "i < length xs"
  then have "row_step (xs ! i) (ys ! i)" using assms(1) by (simp add: table_step_def)
  moreover have "i < length ys" using i assms(1) by (simp add: table_step_def)
  then have "row_step (ys ! i) (zs ! i)" using assms(2) by (simp add: table_step_def)
  ultimately show "row_step (xs ! i) (zs ! i)" by (rule row_step_trans)
qed

lemma table_step_map:
  assumes "distinct (map t_id xs)" and "\<And>r. r \<in> set xs \<Longrightarrow> row_step r (f r)"
  shows "table_step xs (map f xs)"
proof -
  have ids: "map (t_id \<circ> f) xs = map t_id xs"
    using assms(2) by (intro map_cong) (auto simp: row_step_def)
  show ?thesis
    using assms by (simp add: table_step_def ids)
qed

lemma table_step_append:
  assumes "distinct (map t_id (xs @ zs))"
  shows "table_step xs (xs @ zs)"
  using assms by (simp add: table_step_def nth_append row_step_refl del: map_append distinct_append)

lemma fold_max_ge: "seq \<le> fold max ids (seq::nat)"
proof (induction ids arbitrary: seq)
  case Nil
  show ?case by simp
next
  case (Cons a ids)
  have "seq \<le> max a seq" by simp
  also have "\<dots> \<le> fold max ids (max a seq)" by (rule Cons.IH)
  finally show ?case by simp
qed

lemma fold_max_upper: "x \<in> set ids \<Longrightarrow> x \<le> fold max ids (seq::nat)"
proof (induction ids arbitrary: seq)
  case Nil
  then show ?case by simp
next
  case (Cons a ids)
  show ?case
  proof (cases "x = a")
    case True
    have "a \<le> max a seq" by simp
    also have "\<dots> \<le> fold max ids (max a seq)" by (rule fold_max_ge)
    finally show ?thesis using True by simp
  next
    case False
    with Cons.prems have "x \<in> set ids" by simp
    then show ?thesis using Cons.IH by simp
  qed
qed

lemma next_rowid_fresh: "next_rowid seq ids \<notin> set ids"
proof
  assume "next_rowid seq ids \<in> set ids"
  then have "next_rowid seq ids \<le> fold max ids seq" by (rule fold_max_upper)
  then show False by (simp add: next_rowid_def)
qed

lemma save_trade_table:
  assumes "distinct (map t_id (trades w))"
    and "save_trade now sid oid ticker direction asset_type qty entry status w = Inr (rid, w2)"
  shows "table_step (trades w) (trades w2)"
proof -
  have fresh: "next_rowid (trades_seq w) (map t_id (trades w)) \<notin> set (map t_id (trades w))"
    by (rule next_rowid_fresh)
  obtain row where tr: "trades w2 = trades w @ [row]"
    and rid: "t_id row = next_rowid (trades_seq w) (map t_id (trades w))"
    using assms(2) by (auto simp: save_trade_def Let_def split: if_splits)
  have "distinct (map t_id (trades w @ [row]))"
    using assms(1) fresh rid by simp
  then show ?thesis
    unfolding tr by (rule table_step_append)
qed

lemma save_trade_or_not:
  assumes "distinct (map t_id (trades w1))" and "trades w1 = trades w"
  shows "table_step (trades w)
           (trades (case save_trade now sid oid ticker direction asset_type qty entry status w1 of
                      Inr (rid, w2) \<Rightarrow> w2
                    | Inl exc \<Rightarrow> w1))"
proof (cases "save_trade now sid oid ticker direction asset_type qty entry status w1")
  case (Inl exc)
  then show ?thesis using assms table_step_refl[of "trades w1"] by simp
next
  case (Inr res)
  obtain rid w2 where res: "res = (rid, w2)" by (cases res)
  have "table_step (trades w1) (trades w2)"
    using assms(1) Inr res by (auto intro: save_trade_table)
  then show ?thesis using Inr res assms(2) by simp
qed

lemma retry_from_submit_trades:
  "trades (snd (retry_from (trading_submit_order e req) m b a w)) = trades w"
proof (induction "trading_submit_order e req" m b a w rule: retry_from.induct)
  case (1 m b a w)
  show ?case
  proof (cases "m < a")
    case True
    then show ?thesis by (subst retry_from.simps) simp
  next
    case False
    show ?thesis
    proof (cases "submit_order e (length (submitted w)) req")
      case (Some r)
      with False show ?thesis
        by (subst retry_from.simps) (simp add: trading_submit_order_def)
    next
      case None
      show ?thesis
      proof (cases "a = m")
        case True
        with False None show ?thesis
          by (subst retry_from.simps) (simp add: trading_submit_order_def)
      next
        case ne: False
        have f: "trading_submit_order e req w = (None, w\<lparr>submitted := submitted w @ [req]\<rparr>)"
          using None by (simp add: trading_submit_order_def)
        from "1"[OF False f[symmetric] refl ne]
        show ?thesis
          using False ne f by (subst retry_from.simps) simp
      qed
    qed
  qed
qed

lemma retry_submit_trades:
  "retry (trading_submit_order e req) m b w = (r, w1) \<Longrightarrow> trades w1 = trades w"
  using retry_from_submit_trades[of e req m b 1 w] by (simp add: retry_def)

lemma submit_stock_order_table:
  assumes "distinct (map t_id (trades w))"
  shows "table_step (trades w)
           (trades (snd (submit_stock_order e now sid ticker direction qty asset_type w)))"
proof -
  let ?req = "MarketOrderRequest ticker qty (if direction = ''long'' then BUY else SELL) DAY"
  obtain r w1 where rt: "retry (trading_submit_order e ?req) 3 (3 / 2) w = (r, w1)"
    by (cases "retry (trading_submit_order e ?req) 3 (3 / 2) w") blast
  have tr: "trades w1 = trades w" using rt by (rule retry_submit_trades)
  then have d1: "distinct (map t_id (trades w1))" using assms by simp
  show ?thesis
  proof (cases r)
    case (Returned oid)
    let ?saved = "save_trade now sid oid ticker direction asset_type qty
                    (or_zero (get_current_price e ticker asset_type)) ''open'' w1"
    have eq: "snd (submit_stock_order e now sid ticker direction qty asset_type w)
                = (case ?saved of Inr (rid, w2) \<Rightarrow> w2 | Inl exc \<Rightarrow> w1)"
      using rt Returned
      by (simp add: submit_stock_order_def Let_def split: sum.splits prod.splits)
    show ?thesis unfolding eq by (rule save_trade_or_not[OF d1 tr])
  next
    case Raised
    then show ?thesis
      using rt tr table_step_refl[OF assms] by (simp add: submit_stock_order_def Let_def)
  next
    case FellThrough
    then show ?thesis
      using rt tr table_step_refl[OF assms] by (simp add: submit_stock_order_def Let_def)
  qed
qed

lemma save_pending_order_trades:
  "save_pending_order now sid ticker direction qty asset_type w = Inr (rid, w1) \<Longrightarrow>
   trades w1 = trades w"
  by (auto simp: save_pending_order_def Let_def split: if_splits)

lemma execute_stock_table:
  assumes "distinct (map t_id (trades w))"
  shows "table_step (trades w) (trades (snd (execute_stock e now cfg sig w)))"
proof (cases "get_current_price e (sig_ticker sig) ''stock''")
  case None
  then show ?thesis using table_step_refl[OF assms] by (simp add: execute_stock_def)
next
  case (Some price)
  show ?thesis
  proof (cases "price \<le> 0")
    case True
    then show ?thesis using Some table_step_refl[OF assms] by (simp add: execute_stock_def)
  next
    case pos: False
    show ?thesis
    proof (cases "round_to_double (max_position_size_usd cfg / price)")
      case None
      then show ?thesis
        using Some pos table_step_refl[OF assms] by (simp add: execute_stock_def)
    next
      case quot: (Some ratio)
      let ?qty = "of_int (max 1 (py_int ratio)) :: real"
      show ?thesis
      proof (cases "is_market_open e")
        case True
        have "snd (execute_stock e now cfg sig w)
                = snd (submit_stock_order e now (sig_signal_id sig)
                         (to_alpaca_stock_symbol (sig_ticker sig)) (sig_direction sig) ?qty
                         ''stock'' w)"
          using Some pos quot True by (simp add: execute_stock_def Let_def split_beta)
        then show ?thesis using submit_stock_order_table[OF assms] by simp
      next
        case False
        let ?saved = "save_pending_order now (sig_signal_id sig)
                        (to_alpaca_stock_symbol (sig_ticker sig)) (sig_direction sig) ?qty
                        ''stock'' w"
        show ?thesis
        proof (cases ?saved)
          case (Inl exc)
          then show ?thesis
            using Some pos quot False table_step_refl[OF assms]
            by (simp add: execute_stock_def Let_def)
        next
          case (Inr res)
          obtain rid w1 where res: "res = (rid, w1)" by (cases res)
          have "trades w1 = trades w"
            using Inr res by (auto intro: save_pending_order_trades)
          then show ?thesis
            using Some pos quot False Inr res table_step_refl[OF assms]
            by (simp add: execute_stock_def Let_def)
        qed
      qed
    qed
  qed
qed

lemma execute_crypto_table:
  assumes "distinct (map t_id (trades w))"
  shows "table_step (trades w) (trades (snd (execute_crypto e now cfg sig w)))"
proof (cases "sig_direction sig = ''short''")
  case True
  then show ?thesis using table_step_refl[OF assms] by (simp add: execute_crypto_def Let_def)
next
  case long: False
  show ?thesis
  proof (cases "get_current_price e (sig_ticker sig) ''crypto''")
    case None
    then show ?thesis
      using long table_step_refl[OF assms] by (simp add: execute_crypto_def Let_def)
  next
    case (Some price)
    show ?thesis
    proof (cases "price \<le> 0")
      case True
      then show ?thesis
        using long Some table_step_refl[OF assms] by (simp add: execute_crypto_def Let_def)
    next
      case pos: False
      show ?thesis
      proof (cases "round_to_double (max_position_size_usd cfg / price)")
        case None
        then show ?thesis
          using long Some pos table_step_refl[OF assms] by (simp add: execute_crypto_def Let_def)
      next
        case quot: (Some ratio)
        let ?qty = "max (py_round6 ratio) (nearest_double (1 / 1000000))"
        let ?req = "MarketOrderRequest (to_alpaca_crypto_symbol (sig_ticker sig)) ?qty BUY GTC"
        obtain r w1 where rt: "retry (trading_submit_order e ?req) 3 (3 / 2) w = (r, w1)"
          by (cases "retry (trading_submit_order e ?req) 3 (3 / 2) w") blast
        have tr: "trades w1 = trades w" using rt by (rule retry_submit_trades)
        then have d1: "distinct (map t_id (trades w1))" using assms by simp
        show ?thesis
        proof (cases r)
          case (Returned oid)
          let ?saved = "save_trade now (sig_signal_id sig) oid
                          (to_alpaca_crypto_symbol (sig_ticker sig)) (sig_direction sig)
                          ''crypto'' ?qty price ''open'' w1"
          have eq: "snd (execute_crypto e now cfg sig w)
                      = (case ?saved of Inr (rid, w2) \<Rightarrow> w2 | Inl exc \<Rightarrow> w1)"
            using long Some pos quot rt Returned
            by (simp add: execute_crypto_def Let_def split: sum.splits prod.splits)
          show ?thesis unfolding eq by (rule save_trade_or_not[OF d1 tr])
        next
          case Raised
          then show ?thesis
            using long Some pos quot rt tr table_step_refl[OF assms]
            by (simp add: execute_crypto_def Let_def)
        next
          case FellThrough
          then show ?thesis
            using long Some pos quot rt tr table_step_refl[OF assms]
            by (simp add: execute_crypto_def Let_def)
        qed
      qed
    qed
  qed
qed

lemma execute_option_table:
  assumes "distinct (map t_id (trades w))"
  shows "table_step (trades w) (trades (snd (execute_option e now sig w)))"
proof (cases "sig_option_details sig")
  case None
  then show ?thesis using table_step_refl[OF assms] by (simp add: execute_option_def)
next
  case (Some od)
  show ?thesis
  proof (cases "upper (contract_type od)")
    case Nil
    then show ?thesis using Some table_step_refl[OF assms] by (simp add: execute_option_def)
  next
    case (Cons ct rest)
    show ?thesis
    proof (cases "round_to_double (strike od * 1000)")
      case None
      then show ?thesis
        using Some Cons table_step_refl[OF assms] by (simp add: execute_option_def)
    next
      case scaled: (Some scaled)
      show ?thesis
      proof (cases "options_importable e")
        case False
        then show ?thesis
          using Some Cons scaled table_step_refl[OF assms]
          by (simp add: execute_option_def Let_def)
      next
        case True
        let ?occ = "to_alpaca_stock_symbol (sig_ticker sig)
                      @ drop 2 (filter (\<lambda>c. c \<noteq> CHR ''-'') (expiry od))
                      @ [ct] @ format_08d (py_round scaled)"
        let ?req = "PlaceOptionOrderRequest ?occ
                      (if sig_direction sig = ''long'' then BUY else SELL)"
        obtain r w1 where rt: "retry (trading_submit_order e ?req) 3 (3 / 2) w = (r, w1)"
          by (cases "retry (trading_submit_order e ?req) 3 (3 / 2) w") blast
        have tr: "trades w1 = trades w" using rt by (rule retry_submit_trades)
        then have d1: "distinct (map t_id (trades w1))" using assms by simp
        show ?thesis
        proof (cases r)
          case (Returned oid)
          let ?saved = "save_trade now (sig_signal_id sig) oid ?occ (sig_direction sig)
                          ''option'' 1 0 ''open'' w1"
          have eq: "snd (execute_option e now sig w)
                      = (case ?saved of Inr (rid, w2) \<Rightarrow> w2 | Inl exc \<Rightarrow> w1)"
            using Some Cons scaled True rt Returned
            by (simp add: execute_option_def Let_def split: sum.splits prod.splits)
          show ?thesis unfolding eq by (rule save_trade_or_not[OF d1 tr])
        next
          case Raised
          then show ?thesis
            using Some Cons scaled True rt tr table_step_refl[OF assms]
            by (simp add: execute_option_def Let_def)
        next
          case FellThrough
          then show ?thesis
            using Some Cons scaled True rt tr table_step_refl[OF assms]
            by (simp add: execute_option_def Let_def)
        qed
      qed
    qed
  qed
qed

lemma execute_table:
  assumes "distinct (map t_id (trades w))"
  shows "table_step (trades w) (trades (snd (execute e now cfg sig w)))"
proof (cases "sig_asset_type sig = ''option''")
  case True
  then show ?thesis using execute_option_table[OF assms] by (simp add: execute_def)
next
  case no_option: False
  show ?thesis
  proof (cases "sig_asset_type sig = ''crypto''")
    case True
    then show ?thesis
      using no_option execute_crypto_table[OF assms] by (simp add: execute_def)
  next
    case False
    then show ?thesis
      using no_option execute_stock_table[OF assms] by (simp add: execute_def)
  qed
qed

lemma maybe_open_position_table:
  assumes "distinct (map t_id (trades w))"
  shows "table_step (trades w) (trades (snd (maybe_open_position e now cfg sig w)))"
  using execute_table[OF assms] table_step_refl[OF assms]
  by (simp add: maybe_open_position_def split: option.splits)

lemma table_step_distinct: "table_step xs ys \<Longrightarrow> distinct (map t_id ys)"
  by (simp add: table_step_def)

lemma submit_pending_loop_table:
  "distinct (map t_id (trades w)) \<Longrightarrow>
   table_step (trades w) (trades (submit_pending_loop e now rows w))"
proof (induction rows arbitrary: w)
  case Nil
  then show ?case by (simp add: table_step_refl)
next
  case (Cons row rows)
  let ?w1 = "snd (submit_stock_order e now (p_signal_id row) (p_ticker row) (p_direction row)
                    (p_qty row) (p_asset_type row) w)"
  let ?w2 = "delete_pending_order (p_id row) ?w1"
  have s1: "table_step (trades w) (trades ?w1)"
    by (rule submit_stock_order_table[OF Cons.prems])
  have tr2: "trades ?w2 = trades ?w1" by (simp add: delete_pending_order_def)
  have d2: "distinct (map t_id (trades ?w2))"
    using table_step_distinct[OF s1] tr2 by simp
  have s2: "table_step (trades w) (trades ?w2)"
    unfolding tr2 by (rule s1)
  have ih: "table_step (trades ?w2) (trades (submit_pending_loop e now rows ?w2))"
    by (rule Cons.IH[OF d2])
  have run: "table_step (trades w) (trades (submit_pending_loop e now rows ?w2))"
    by (rule table_step_trans[OF s2 ih])
  have unfold_loop: "submit_pending_loop e now (row # rows) w = submit_pending_loop e now rows ?w2"
    by (simp add: split_beta)
  show ?case unfolding unfold_loop by (rule run)
qed

lemma submit_pending_orders_table:
  assumes "distinct (map t_id (trades w))"
  shows "table_step (trades w) (trades (submit_pending_orders e now w))"
  using submit_pending_loop_table[OF assms] table_step_refl[OF assms]
  by (simp add: submit_pending_orders_def Let_def)

lemma refresh_pnl_table:
  assumes "distinct (map t_id (trades w))"
  shows "table_step (trades w) (trades (refresh_pnl e w))"
  unfolding refresh_pnl_trades[OF assms]
  by (rule table_step_map[OF assms])
     (auto simp: row_step_def refreshed_row_def split: option.splits)

lemma auto_close_stale_table:
  assumes "distinct (map t_id (trades w))"
  shows "table_step (trades w) (trades (auto_close_stale e now cfg w))"
  unfolding auto_close_stale_trades[OF assms]
  by (rule table_step_map[OF assms])
     (auto simp: row_step_def stale_closed_row_def split: option.splits)

lemma engine_step_table:
  assumes "distinct (map t_id (trades w))"
  shows "table_step (trades w) (trades (engine_step x w))"
  using refresh_pnl_table[OF assms] auto_close_stale_table[OF assms]
        maybe_open_position_table[OF assms] submit_pending_orders_table[OF assms]
  by (cases x) simp_all

lemma engine_run_table:
  "distinct (map t_id (trades w)) \<Longrightarrow> table_step (trades w) (trades (engine_run ops w))"
proof (induction ops arbitrary: w)
  case Nil
  then show ?case by (simp add: engine_run_def table_step_refl)
next
  case (Cons x ops)
  have s1: "table_step (trades w) (trades (engine_step x w))"
    by (rule engine_step_table[OF Cons.prems])
  have "table_step (trades (engine_step x w)) (trades (engine_run ops (engine_step x w)))"
    by (rule Cons.IH[OF table_step_distinct[OF s1]])
  with s1 have "table_step (trades w) (trades (engine_run ops (engine_step x w)))"
    by (rule table_step_trans)
  then show ?case by (simp add: engine_run_def)
qed

text \<open>
  C9. Over any sequence of engine operations (P\&L refresh, stale close, admission,
  submission of pending orders), started on a table with distinct row ids: the row at
  each position stays the row of the same trade; a row whose status is \<^verbatim>\<open>closed\<close> is
  found unchanged afterwards, in every column (status, P\&L, prices, timestamps); and a
  status that differs afterwards was \<^verbatim>\<open>open\<close> and is \<^verbatim>\<open>closed\<close>. Row ids stay
  distinct, so the statement applies again to whatever runs next: a trade is closed at
  most once.
\<close>

theorem closed_trades_are_final:
  assumes "distinct (map t_id (trades w))" and "i < length (trades w)"
  shows "i < length (trades (engine_run ops w)) \<and>
         t_id (trades (engine_run ops w) ! i) = t_id (trades w ! i) \<and>
         (t_status (trades w ! i) = ''closed'' \<longrightarrow>
            trades (engine_run ops w) ! i = trades w ! i) \<and>
         (t_status (trades (engine_run ops w) ! i) \<noteq> t_status (trades w ! i) \<longrightarrow>
            t_status (trades w ! i) = ''open'' \<and>
            t_status (trades (engine_run ops w) ! i) = ''closed'') \<and>
         distinct (map t_id (trades (engine_run ops w)))"
proof -
  have ts: "table_step (trades w) (trades (engine_run ops w))"
    by (rule engine_run_table[OF assms(1)])
  then have "row_step (trades w ! i) (trades (engine_run ops w) ! i)"
    using assms(2) by (simp add: table_step_def)
  moreover have "i < length (trades (engine_run ops w))"
    using ts assms(2) by (simp add: table_step_def)
  moreover have "distinct (map t_id (trades (engine_run ops w)))"
    using ts by (rule table_step_distinct)
  ultimately show ?thesis by (auto simp: row_step_def)
qed

text \<open>
  A closed and an open trade, then one operation of each kind: the closed row is as before.
\<close>

theorem closed_trades_are_final_witness:
  "trades (engine_run [RefreshPnl ex_env,
                       AutoCloseStale ex_env (100 * usec_per_day) ex_config,
                       MaybeOpenPosition ex_env (100 * usec_per_day) ex_config
                         (ex_signal ''AAPL'' ''stock'' ''long''),
                       SubmitPendingOrders ex_env (100 * usec_per_day)]
            (ex_world [ex_trade 1 ''AAPL'' ''long'' 0
                         \<lparr>t_status := ''closed'', t_closed_at := Some 50,
                          t_current_price := Some 95, t_pnl := Some 50\<rparr>,
                       ex_trade 2 ''AAPL'' ''long'' 10])) ! 0
     = ex_trade 1 ''AAPL'' ''long'' 0
         \<lparr>t_status := ''closed'', t_closed_at := Some 50,
          t_current_price := Some 95, t_pnl := Some 50\<rparr>"
  using closed_trades_are_final
          [of "ex_world [ex_trade 1 ''AAPL'' ''long'' 0
                         \<lparr>t_status := ''closed'', t_closed_at := Some 50,
                          t_current_price := Some 95, t_pnl := Some 50\<rparr>,
                       ex_trade 2 ''AAPL'' ''long'' 10]" 0
              "[RefreshPnl ex_env,
                       AutoCloseStale ex_env (100 * usec_per_day) ex_config,
                       MaybeOpenPosition ex_env (100 * usec_per_day) ex_config
                         (ex_signal ''AAPL'' ''stock'' ''long''),
                       SubmitPendingOrders ex_env (100 * usec_per_day)]"]
  by (simp add: ex_world_def ex_trade_def)

end
